theory Spec2Isabelle
  imports Main "HOL-Library.Sublist"
begin

section \<open>Exceptions\<close>

text \<open>
  Python exceptions as values. The first four are raised by the handler's own code or by
  the built-in operations it uses (indexing, \<^verbatim>\<open>list.remove\<close>, the date arithmetic);
  \<open>Upstream\<close> carries the message of an exception raised inside a collaborator
  (the JSON encoder, the STAC client, the signing helper, HTTP, the object store).
\<close>

datatype exn =
    ValueError string
  | KeyError string
  | IndexError string
  | OverflowError string
  | Upstream string

text \<open>\<^verbatim>\<open>str(e)\<close>; a \<^verbatim>\<open>KeyError\<close> prints the repr of its key.\<close>

fun str_exn :: "exn \<Rightarrow> string" where
  "str_exn (ValueError m) = m"
| "str_exn (KeyError k) = [CHR 0x27] @ k @ [CHR 0x27]"
| "str_exn (IndexError m) = m"
| "str_exn (OverflowError m) = m"
| "str_exn (Upstream m) = m"

section \<open>Data model\<close>

text \<open>
  A STAC link and a STAC asset, with the fields the handler reads or writes.
  Link objects are mutated in place and removed from \<^verbatim>\<open>item.links\<close> with
  \<^verbatim>\<open>list.remove\<close>; pystac's \<^verbatim>\<open>Link\<close> does not override equality, so removal goes
  by object identity. Links therefore live in a store and an item holds references.
\<close>

record link =
  rel :: string
  link_href :: string

record asset =
  href :: string
  media_type :: "string option"

type_synonym ref = nat
type_synonym link_store = "ref \<Rightarrow> link"

record item =
  item_id :: string
  assets :: "(string \<times> asset) list"
  links :: "ref list"
  properties :: string

section \<open>Metadata-only transform\<close>

text \<open>
  First loop of \<^verbatim>\<open>prepare_item_for_indexing\<close>: walk \<^verbatim>\<open>item.links\<close>, relabel
  \<^verbatim>\<open>"self"\<close> as \<^verbatim>\<open>"canonical"\<close> in place, and collect in \<^verbatim>\<open>links_to_remove\<close> every
  link whose relation is none of \<^verbatim>\<open>"canonical"\<close>, \<^verbatim>\<open>"collection"\<close>, \<^verbatim>\<open>"root"\<close>.
\<close>

fun mark_links :: "ref list \<Rightarrow> link_store \<times> ref list \<Rightarrow> link_store \<times> ref list" where
  "mark_links [] (st, links_to_remove) = (st, links_to_remove)"
| "mark_links (r # rs) (st, links_to_remove) =
     (if rel (st r) = ''self''
      then mark_links rs (st(r := (st r)\<lparr>rel := ''canonical''\<rparr>), links_to_remove)
      else if rel (st r) \<notin> set [''canonical'', ''collection'', ''root'']
      then mark_links rs (st, links_to_remove @ [r])
      else mark_links rs (st, links_to_remove))"

text \<open>\<^verbatim>\<open>list.remove(x)\<close>: drops the first occurrence, \<^verbatim>\<open>ValueError\<close> when there is none.\<close>

definition list_remove :: "'a \<Rightarrow> 'a list \<Rightarrow> exn + 'a list" where
  "list_remove x xs =
     (if x \<in> set xs then Inr (remove1 x xs)
      else Inl (ValueError ''list.remove(x): x not in list''))"

text \<open>Second loop: remove each collected link from \<^verbatim>\<open>item.links\<close>.\<close>

fun remove_links :: "ref list \<Rightarrow> ref list \<Rightarrow> exn + ref list" where
  "remove_links [] ls = Inr ls"
| "remove_links (r # rs) ls =
     (case list_remove r ls of
        Inl e \<Rightarrow> Inl e
      | Inr ls' \<Rightarrow> remove_links rs ls')"

definition prepare_item_for_indexing :: "link_store \<Rightarrow> item \<Rightarrow> exn + (link_store \<times> item)" where
  "prepare_item_for_indexing st it =
     (case mark_links (links it) (st, []) of
        (st', links_to_remove) \<Rightarrow>
          (case remove_links links_to_remove (links it) of
             Inl e \<Rightarrow> Inl e
           | Inr ls \<Rightarrow> Inr (st', it\<lparr>links := ls\<rparr>)))"

section \<open>Payload\<close>

text \<open>
  \<^verbatim>\<open>Item.to_dict()\<close> yields a plain mapping; a feature is that snapshot of an item, its
  links dereferenced in list order.
\<close>

record feature =
  f_id :: string
  f_assets :: "(string \<times> asset) list"
  f_links :: "link list"
  f_properties :: string

definition to_dict :: "link_store \<Rightarrow> item \<Rightarrow> feature" where
  "to_dict st it =
     \<lparr>f_id = item_id it, f_assets = assets it, f_links = map st (links it),
      f_properties = properties it\<rparr>"

record error_record =
  task :: string
  error :: string
  timestamp :: string

text \<open>
  The task's entry under \<^verbatim>\<open>event["process"][0]["tasks"]\<close>. A field that is missing
  (\<^verbatim>\<open>.get\<close> returns \<^verbatim>\<open>None\<close> or its default) is \<open>None\<close>.
\<close>

record task_config =
  cfg_tile :: "string option"
  cfg_date :: "string option"
  cfg_download_assets :: "bool option"
  cfg_max_items :: "int option"

record process_config =
  tasks :: "(string \<times> task_config) list option"

text \<open>
  The Cirrus payload (\<^verbatim>\<open>event\<close>): a dictionary, so each key the handler touches may be
  absent. Everything else it carries is \<open>passthrough\<close>.
\<close>

record payload =
  payload_id :: "string option"
  process :: "process_config list option"
  features :: "feature list option"
  errors :: "error_record list option"
  passthrough :: string

text \<open>The handler returns either \<^verbatim>\<open>{"url": s3_url}\<close> or the event itself.\<close>

datatype response = Url string | Full payload

section \<open>Collaborators and the world\<close>

text \<open>
  What the handler does to the outside, in order: calls to the STAC client, the signing
  helper, HTTP and the object store, and the lines it logs at warning or error level
  (informational lines are not recorded).
\<close>

datatype call =
    OpenClient
  | Search string string string int
  | Sign string
  | Get string
  | PutObject "string option" string string string
  | LogLargeDataset nat
  | LogAssetFailed string string exn
  | LogSizeUnknown exn
  | LogQueryError exn
  | LogUploadError exn
  | LogHandlerError exn

record world =
  store :: link_store
  trace :: "call list"

definition emit :: "call \<Rightarrow> world \<Rightarrow> world" where
  "emit c w = w\<lparr>trace := trace w @ [c]\<rparr>"

text \<open>
  A naive \<^verbatim>\<open>datetime\<close>: the calendar date and the time of day as \<^verbatim>\<open>isoformat()\<close>
  prints it. Adding \<^verbatim>\<open>timedelta(days=1)\<close> leaves the time of day alone.
\<close>

record datetime =
  dt_year :: nat
  dt_month :: nat
  dt_day :: nat
  dt_clock :: string

text \<open>
  The collaborators and the process environment. Each collaborator sees the trace so
  far, so the same call may be answered differently at different times. An answer
  \<open>Inl m\<close> (or \<open>Some m\<close> where nothing is returned) is an exception with message \<open>m\<close>.
  \<^item> \<open>json_dumps\<close>: \<^verbatim>\<open>json.dumps(payload, default=str).encode("utf-8")\<close>, the bytes;
  \<^item> \<open>client_open\<close>: \<^verbatim>\<open>Client.open(STAC_API_URL, modifier=API_MODIFIER)\<close>;
  \<^item> \<open>client_search\<close>: \<^verbatim>\<open>list(client.search(collections, datetime, query, max_items).items())\<close>;
  \<^item> \<open>sign\<close>: \<^verbatim>\<open>planetary_computer.sign(item).assets.items()\<close>, in iteration order;
  \<^item> \<open>http_get\<close>: \<^verbatim>\<open>requests.get(url, timeout=300)\<close> with \<^verbatim>\<open>raise_for_status()\<close>, the content;
  \<^item> \<open>put_object\<close>: \<^verbatim>\<open>s3_client.put_object(Bucket, Key, Body, ContentType)\<close>;
  \<^item> \<open>utcnow\<close>: \<^verbatim>\<open>datetime.utcnow().isoformat()\<close>;
  \<^item> \<open>fromisoformat_other\<close>: \<^verbatim>\<open>datetime.fromisoformat\<close> on a string that is not of the
    form \<^verbatim>\<open>dddd-dd-dd\<close> (what it accepts there depends on the Python version).
\<close>

record env =
  json_dumps :: "payload \<Rightarrow> string + string"
  client_open :: "call list \<Rightarrow> string option"
  client_search :: "call list \<Rightarrow> string \<Rightarrow> string \<Rightarrow> string \<Rightarrow> int \<Rightarrow> string + item list"
  sign :: "call list \<Rightarrow> item \<Rightarrow> string + (string \<times> asset) list"
  http_get :: "call list \<Rightarrow> string \<Rightarrow> string + string"
  put_object :: "call list \<Rightarrow> string option \<Rightarrow> string \<Rightarrow> string \<Rightarrow> string \<Rightarrow> string option"
  utcnow :: "call list \<Rightarrow> string"
  fromisoformat_other :: "string \<Rightarrow> string + datetime"
  COLLECTION :: string
  CIRRUS_DATA_BUCKET :: "string option"
  CIRRUS_PAYLOAD_BUCKET :: "string option"

definition TASK_NAME :: string where
  "TASK_NAME = ''planetary-computer-to-s3''"

text \<open>\<^verbatim>\<open>sub in s\<close> on strings: \<open>sub\<close> occurs in \<open>s\<close> as a contiguous run.\<close>

fun contains :: "string \<Rightarrow> string \<Rightarrow> bool" where
  "contains sub [] = (sub = [])"
| "contains sub (c # cs) = (prefix sub (c # cs) \<or> contains sub cs)"

text \<open>How an f-string prints a value that may be \<^verbatim>\<open>None\<close>.\<close>

fun py_str :: "string option \<Rightarrow> string" where
  "py_str None = ''None''"
| "py_str (Some s) = s"

section \<open>Dates\<close>

text \<open>A decimal digit's value; \<open>None\<close> for any other character.\<close>

definition digit_val :: "char \<Rightarrow> nat option" where
  "digit_val c = map_of (zip ''0123456789'' [0, 1, 2, 3, 4, 5, 6, 7, 8, 9]) c"

fun number :: "char list \<Rightarrow> nat \<Rightarrow> nat option" where
  "number [] n = Some n"
| "number (c # cs) n =
     (case digit_val c of None \<Rightarrow> None | Some d \<Rightarrow> number cs (10 * n + d))"

text \<open>The form \<^verbatim>\<open>dddd-dd-dd\<close>: year, month and day as written, not yet validated.\<close>

fun parse_date :: "string \<Rightarrow> (nat \<times> nat \<times> nat) option" where
  "parse_date [y1, y2, y3, y4, s1, m1, m2, s2, d1, d2] =
     (if s1 = CHR ''-'' \<and> s2 = CHR ''-'' then
        (case (number [y1, y2, y3, y4] 0, number [m1, m2] 0, number [d1, d2] 0) of
           (Some y, Some m, Some d) \<Rightarrow> Some (y, m, d)
         | _ \<Rightarrow> None)
      else None)"
| "parse_date _ = None"

definition is_leap :: "nat \<Rightarrow> bool" where
  "is_leap y = (y mod 4 = 0 \<and> (y mod 100 \<noteq> 0 \<or> y mod 400 = 0))"

definition days_in_month :: "nat \<Rightarrow> nat \<Rightarrow> nat" where
  "days_in_month y m =
     (if m = 2 then (if is_leap y then 29 else 28)
      else if m = 4 \<or> m = 6 \<or> m = 9 \<or> m = 11 then 30
      else 31)"

text \<open>
  \<^verbatim>\<open>datetime.fromisoformat(date)\<close>. A string of the form \<^verbatim>\<open>dddd-dd-dd\<close> is a calendar
  date at midnight when year, month and day are in range, and a \<^verbatim>\<open>ValueError\<close>
  otherwise; any other string is left to \<open>fromisoformat_other\<close>.
\<close>

definition fromisoformat :: "env \<Rightarrow> string \<Rightarrow> exn + datetime" where
  "fromisoformat env s =
     (case parse_date s of
        Some (y, m, d) \<Rightarrow>
          (if y < 1 then Inl (ValueError ''year 0 is out of range'')
           else if m < 1 \<or> 12 < m then Inl (ValueError ''month must be in 1..12'')
           else if d < 1 \<or> days_in_month y m < d
           then Inl (ValueError ''day is out of range for month'')
           else Inr \<lparr>dt_year = y, dt_month = m, dt_day = d, dt_clock = ''00:00:00''\<rparr>)
      | None \<Rightarrow>
          (case fromisoformat_other env s of
             Inl msg \<Rightarrow> Inl (ValueError msg)
           | Inr dt \<Rightarrow> Inr dt))"

text \<open>\<^verbatim>\<open>start_date + timedelta(days=1)\<close>; the last day of year 9999 overflows.\<close>

definition add_one_day :: "datetime \<Rightarrow> exn + datetime" where
  "add_one_day dt =
     (if dt_day dt < days_in_month (dt_year dt) (dt_month dt)
      then Inr (dt\<lparr>dt_day := dt_day dt + 1\<rparr>)
      else if dt_month dt < 12
      then Inr (dt\<lparr>dt_month := dt_month dt + 1, dt_day := 1\<rparr>)
      else if dt_year dt < 9999
      then Inr (dt\<lparr>dt_year := dt_year dt + 1, dt_month := 1, dt_day := 1\<rparr>)
      else Inl (OverflowError ''date value out of range''))"

definition digit :: "nat \<Rightarrow> char" where
  "digit n = ''0123456789'' ! (n mod 10)"

definition pad2 :: "nat \<Rightarrow> string" where
  "pad2 n = [digit (n div 10), digit n]"

definition pad4 :: "nat \<Rightarrow> string" where
  "pad4 n = [digit (n div 1000), digit (n div 100), digit (n div 10), digit n]"

text \<open>\<^verbatim>\<open>dt.isoformat()\<close>: \<^verbatim>\<open>YYYY-MM-DDTHH:MM:SS\<close>.\<close>

definition isoformat :: "datetime \<Rightarrow> string" where
  "isoformat dt =
     pad4 (dt_year dt) @ ''-'' @ pad2 (dt_month dt) @ ''-'' @ pad2 (dt_day dt)
       @ ''T'' @ dt_clock dt"

section \<open>Catalog query\<close>

text \<open>
  The \<^verbatim>\<open>datetime\<close> argument of the search (lines 151 to 157): a date holding
  \<^verbatim>\<open>"/"\<close> goes through as it is, a single date becomes \<^verbatim>\<open>start/end\<close>.
\<close>

definition datetime_query :: "env \<Rightarrow> string \<Rightarrow> exn + string" where
  "datetime_query env date =
     (if contains ''/'' date then Inr date
      else
        (case fromisoformat env date of
           Inl e \<Rightarrow> Inl e
         | Inr start_date \<Rightarrow>
             (case add_one_day start_date of
                Inl e \<Rightarrow> Inl e
              | Inr end_date \<Rightarrow> Inr (isoformat start_date @ ''/'' @ isoformat end_date))))"

text \<open>The body of the \<^verbatim>\<open>try\<close> in \<^verbatim>\<open>query_planetary_computer\<close>.\<close>

definition query_try ::
  "env \<Rightarrow> string \<Rightarrow> string \<Rightarrow> int \<Rightarrow> bool \<Rightarrow> world \<Rightarrow> (exn + item list) \<times> world" where
  "query_try env tile date max_items download_assets w =
     (let w1 = emit OpenClient w in
      case client_open env (trace w) of
        Some msg \<Rightarrow> (Inl (Upstream msg), w1)
      | None \<Rightarrow>
          (case datetime_query env date of
             Inl e \<Rightarrow> (Inl e, w1)
           | Inr dq \<Rightarrow>
               (let w2 = emit (Search (COLLECTION env) dq tile max_items) w1 in
                case client_search env (trace w1) (COLLECTION env) dq tile max_items of
                  Inl msg \<Rightarrow> (Inl (Upstream msg), w2)
                | Inr items \<Rightarrow>
                    (Inr items,
                     if download_assets \<and> 20 < length items
                     then emit (LogLargeDataset (length items)) w2 else w2))))"

definition query_planetary_computer ::
  "env \<Rightarrow> string \<Rightarrow> string \<Rightarrow> int \<Rightarrow> bool \<Rightarrow> world \<Rightarrow> (exn + item list) \<times> world" where
  "query_planetary_computer env tile date max_items download_assets w =
     (case query_try env tile date max_items download_assets w of
        (Inl e, w') \<Rightarrow> (Inl e, emit (LogQueryError e) w')
      | (Inr items, w') \<Rightarrow> (Inr items, w'))"

section \<open>Asset download\<close>

definition s3_key_of :: "string \<Rightarrow> string \<Rightarrow> string" where
  "s3_key_of iid asset_key = ''sentinel-2-l2a/'' @ iid @ ''/'' @ asset_key @ ''.tif''"

definition s3_href :: "env \<Rightarrow> string \<Rightarrow> string" where
  "s3_href env s3_key = ''s3://'' @ py_str (CIRRUS_DATA_BUCKET env) @ ''/'' @ s3_key"

text \<open>\<^verbatim>\<open>item.assets[asset_key].href = h\<close> on a key that is present.\<close>

definition set_href :: "string \<Rightarrow> string \<Rightarrow> (string \<times> asset) list \<Rightarrow> (string \<times> asset) list" where
  "set_href asset_key h al =
     map (\<lambda>(k, a). if k = asset_key then (k, a\<lparr>href := h\<rparr>) else (k, a)) al"

text \<open>
  The body of the \<^verbatim>\<open>try\<close> for one asset: fetch from the signed href, store under the
  item's key, then point the original item's asset at the stored object. \<open>al\<close> is
  \<^verbatim>\<open>item.assets\<close> of the original item.
\<close>

definition download_try ::
  "env \<Rightarrow> string \<Rightarrow> string \<Rightarrow> asset \<Rightarrow> string \<Rightarrow> world \<times> (string \<times> asset) list \<Rightarrow>
   (exn + (string \<times> asset) list) \<times> world" where
  "download_try env iid asset_key a mt s =
     (case s of (w, al) \<Rightarrow>
        (let w1 = emit (Get (href a)) w in
         case http_get env (trace w) (href a) of
           Inl msg \<Rightarrow> (Inl (Upstream msg), w1)
         | Inr content \<Rightarrow>
             (let s3_key = s3_key_of iid asset_key;
                  w2 = emit (PutObject (CIRRUS_DATA_BUCKET env) s3_key content mt) w1 in
              case put_object env (trace w1) (CIRRUS_DATA_BUCKET env) s3_key content mt of
                Some msg \<Rightarrow> (Inl (Upstream msg), w2)
              | None \<Rightarrow>
                  (case map_of al asset_key of
                     None \<Rightarrow> (Inl (KeyError asset_key), w2)
                   | Some orig \<Rightarrow> (Inr (set_href asset_key (s3_href env s3_key) al), w2)))))"

text \<open>\<^verbatim>\<open>asset.media_type and "geotiff" in asset.media_type\<close>.\<close>

definition is_geotiff :: "asset \<Rightarrow> bool" where
  "is_geotiff a =
     (case media_type a of None \<Rightarrow> False | Some mt \<Rightarrow> mt \<noteq> [] \<and> contains ''geotiff'' mt)"

text \<open>One turn of the loop over the signed item's assets.\<close>

definition process_asset ::
  "env \<Rightarrow> string \<Rightarrow> string \<times> asset \<Rightarrow> world \<times> (string \<times> asset) list \<Rightarrow>
   world \<times> (string \<times> asset) list" where
  "process_asset env iid ka s =
     (case ka of (asset_key, a) \<Rightarrow>
        (case media_type a of
           None \<Rightarrow> s
         | Some mt \<Rightarrow>
             if mt \<noteq> [] \<and> contains ''geotiff'' mt then
               (case download_try env iid asset_key a mt s of
                  (Inl e, w') \<Rightarrow> (emit (LogAssetFailed asset_key iid e) w', snd s)
                | (Inr al', w') \<Rightarrow> (w', al'))
             else s))"

fun asset_loop ::
  "env \<Rightarrow> string \<Rightarrow> (string \<times> asset) list \<Rightarrow> world \<times> (string \<times> asset) list \<Rightarrow>
   world \<times> (string \<times> asset) list" where
  "asset_loop env iid [] s = s"
| "asset_loop env iid (ka # rest) s = asset_loop env iid rest (process_asset env iid ka s)"

definition download_and_update_item :: "env \<Rightarrow> item \<Rightarrow> world \<Rightarrow> (exn + item) \<times> world" where
  "download_and_update_item env it w =
     (let w1 = emit (Sign (item_id it)) w in
      case sign env (trace w) it of
        Inl msg \<Rightarrow> (Inl (Upstream msg), w1)
      | Inr signed \<Rightarrow>
          (case asset_loop env (item_id it) signed (w1, assets it) of
             (w2, al) \<Rightarrow> (Inr (it\<lparr>assets := al\<rparr>), w2)))"

section \<open>The handler\<close>

text \<open>One turn of the loop over the catalog's items (lines 87 to 95).\<close>

definition process_item :: "env \<Rightarrow> bool \<Rightarrow> item \<Rightarrow> world \<Rightarrow> (exn + feature) \<times> world" where
  "process_item env dl it w =
     (if dl then
        (case download_and_update_item env it w of
           (Inl e, w') \<Rightarrow> (Inl e, w')
         | (Inr updated_item, w') \<Rightarrow> (Inr (to_dict (store w') updated_item), w'))
      else
        (case prepare_item_for_indexing (store w) it of
           Inl e \<Rightarrow> (Inl e, w)
         | Inr (st', updated_item) \<Rightarrow> (Inr (to_dict st' updated_item), w\<lparr>store := st'\<rparr>)))"

fun process_items :: "env \<Rightarrow> bool \<Rightarrow> item list \<Rightarrow> world \<Rightarrow> (exn + feature list) \<times> world" where
  "process_items env dl [] w = (Inr [], w)"
| "process_items env dl (it # its) w =
     (case process_item env dl it w of
        (Inl e, w') \<Rightarrow> (Inl e, w')
      | (Inr f, w') \<Rightarrow>
          (case process_items env dl its w' of
             (Inl e, w'') \<Rightarrow> (Inl e, w'')
           | (Inr fs, w'') \<Rightarrow> (Inr (f # fs), w'')))"

definition should_upload_to_s3 :: "env \<Rightarrow> payload \<Rightarrow> world \<Rightarrow> bool \<times> world" where
  "should_upload_to_s3 env p w =
     (case json_dumps env p of
        Inl msg \<Rightarrow> (True, emit (LogSizeUnknown (Upstream msg)) w)
      | Inr payload_json \<Rightarrow> (240000 < length payload_json, w))"

text \<open>The body of the \<^verbatim>\<open>try\<close> in \<^verbatim>\<open>upload_payload_to_s3\<close>, the bucket being set.\<close>

definition upload_try :: "env \<Rightarrow> string \<Rightarrow> payload \<Rightarrow> world \<Rightarrow> (exn + string) \<times> world" where
  "upload_try env bucket p w =
     (case payload_id p of
        None \<Rightarrow> (Inl (KeyError ''id''), w)
      | Some pid \<Rightarrow>
          (let url = ''s3://'' @ bucket @ ''/'' @ TASK_NAME @ ''/'' @ pid @ ''.json'';
               s3_key = TASK_NAME @ ''/'' @ pid @ ''.json'' in
           case json_dumps env p of
             Inl msg \<Rightarrow> (Inl (Upstream msg), w)
           | Inr body \<Rightarrow>
               (let w1 = emit (PutObject (Some bucket) s3_key body ''application/json'') w in
                case put_object env (trace w) (Some bucket) s3_key body ''application/json'' of
                  Some msg \<Rightarrow> (Inl (Upstream msg), w1)
                | None \<Rightarrow> (Inr url, w1))))"

definition bucket_not_set :: exn where
  "bucket_not_set = ValueError ''CIRRUS_PAYLOAD_BUCKET environment variable not set''"

definition upload_payload_to_s3 :: "env \<Rightarrow> payload \<Rightarrow> world \<Rightarrow> (exn + string) \<times> world" where
  "upload_payload_to_s3 env p w =
     (case CIRRUS_PAYLOAD_BUCKET env of
        None \<Rightarrow> (Inl bucket_not_set, w)
      | Some bucket \<Rightarrow>
          if bucket = [] then (Inl bucket_not_set, w)
          else
            (case upload_try env bucket p w of
               (Inl e, w') \<Rightarrow> (Inl e, emit (LogUploadError e) w')
             | (Inr url, w') \<Rightarrow> (Inr url, w')))"

definition missing_tile_or_date :: exn where
  "missing_tile_or_date = ValueError ''Both 'tile' and 'date' are required in task configuration''"

text \<open>\<^verbatim>\<open>process_config.get("tasks", {}).get("planetary-computer-to-s3", {})\<close>.\<close>

definition empty_config :: task_config where
  "empty_config = \<lparr>cfg_tile = None, cfg_date = None, cfg_download_assets = None, cfg_max_items = None\<rparr>"

definition get_task_config :: "process_config \<Rightarrow> task_config" where
  "get_task_config process_config =
     (case tasks process_config of
        None \<Rightarrow> empty_config
      | Some ts \<Rightarrow> (case map_of ts TASK_NAME of None \<Rightarrow> empty_config | Some tc \<Rightarrow> tc))"

text \<open>\<^verbatim>\<open>task_config.get("download_assets", False)\<close> and \<^verbatim>\<open>task_config.get("max_items", 100)\<close>.\<close>

definition download_flag :: "task_config \<Rightarrow> bool" where
  "download_flag task_config =
     (case cfg_download_assets task_config of None \<Rightarrow> False | Some b \<Rightarrow> b)"

definition item_limit :: "task_config \<Rightarrow> int" where
  "item_limit task_config =
     (case cfg_max_items task_config of None \<Rightarrow> 100 | Some n \<Rightarrow> n)"

text \<open>\<^verbatim>\<open>not s\<close> for a string that may be \<^verbatim>\<open>None\<close>.\<close>

fun falsy :: "string option \<Rightarrow> bool" where
  "falsy None = True"
| "falsy (Some s) = (s = [])"

text \<open>
  Lines 86 to 111, from the item loop on: transform the items, extend
  \<^verbatim>\<open>event["features"]\<close>, then return the event or offload it.
\<close>

definition extend_features :: "payload \<Rightarrow> feature list \<Rightarrow> payload" where
  "extend_features event processed_features =
     event\<lparr>features :=
       Some ((case features event of None \<Rightarrow> [] | Some fs \<Rightarrow> fs) @ processed_features)\<rparr>"

definition emit_result :: "env \<Rightarrow> payload \<Rightarrow> world \<Rightarrow> (exn + response) \<times> payload \<times> world" where
  "emit_result env event w =
     (case should_upload_to_s3 env event w of
        (True, w1) \<Rightarrow>
          (case upload_payload_to_s3 env event w1 of
             (Inl e, w2) \<Rightarrow> (Inl e, event, w2)
           | (Inr s3_url, w2) \<Rightarrow> (Inr (Url s3_url), event, w2))
      | (False, w1) \<Rightarrow> (Inr (Full event), event, w1))"

definition run_items ::
  "env \<Rightarrow> bool \<Rightarrow> item list \<Rightarrow> payload \<Rightarrow> world \<Rightarrow> (exn + response) \<times> payload \<times> world" where
  "run_items env dl stac_items event w =
     (case process_items env dl stac_items w of
        (Inl e, w1) \<Rightarrow> (Inl e, event, w1)
      | (Inr processed_features, w1) \<Rightarrow>
          emit_result env (extend_features event processed_features) w1)"

text \<open>The body of the handler's \<^verbatim>\<open>try\<close> (lines 58 to 111).\<close>

definition handler_try :: "env \<Rightarrow> payload \<Rightarrow> world \<Rightarrow> (exn + response) \<times> payload \<times> world" where
  "handler_try env event w =
     (case json_dumps env event of
        Inl msg \<Rightarrow> (Inl (Upstream msg), event, w)
      | Inr logged \<Rightarrow>
          (case process event of
             None \<Rightarrow> (Inl (KeyError ''process''), event, w)
           | Some [] \<Rightarrow> (Inl (IndexError ''list index out of range''), event, w)
           | Some (process_config # others) \<Rightarrow>
               (let task_config = get_task_config process_config;
                    dl = download_flag task_config;
                    mx = item_limit task_config in
                if falsy (cfg_tile task_config) \<or> falsy (cfg_date task_config)
                then (Inl missing_tile_or_date, event, w)
                else
                  (case query_planetary_computer env (py_str (cfg_tile task_config))
                          (py_str (cfg_date task_config)) mx dl w of
                     (Inl e, w1) \<Rightarrow> (Inl e, event, w1)
                   | (Inr stac_items, w1) \<Rightarrow> run_items env dl stac_items event w1))))"

text \<open>
  The handler: whatever the body raises is logged, recorded in \<^verbatim>\<open>event["errors"]\<close>
  and raised again. The result is what the invoker sees, with the event and the world
  as the call leaves them.
\<close>

definition error_entry :: "env \<Rightarrow> exn \<Rightarrow> world \<Rightarrow> error_record" where
  "error_entry env e w =
     \<lparr>task = ''planetary-computer-to-s3'', error = str_exn e, timestamp = utcnow env (trace w)\<rparr>"

definition lambda_handler :: "env \<Rightarrow> payload \<Rightarrow> world \<Rightarrow> (exn + response) \<times> payload \<times> world" where
  "lambda_handler env event w =
     (case handler_try env event w of
        (Inl e, event', w') \<Rightarrow>
          (let w'' = emit (LogHandlerError e) w' in
           (Inl e,
            event'\<lparr>errors :=
              Some ((case errors event' of None \<Rightarrow> [] | Some es \<Rightarrow> es) @ [error_entry env e w''])\<rparr>,
            w''))
      | (Inr r, event', w') \<Rightarrow> (Inr r, event', w'))"

section \<open>Properties of the metadata-only transform\<close>

text \<open>The relations that survive the transform, as seen before it runs.\<close>

definition kept :: "link_store \<Rightarrow> ref \<Rightarrow> bool" where
  "kept st r = (rel (st r) \<in> set [''self'', ''canonical'', ''collection'', ''root''])"

definition relabel :: "ref list \<Rightarrow> link_store \<Rightarrow> link_store" where
  "relabel rs st =
     (\<lambda>r. if r \<in> set rs \<and> rel (st r) = ''self'' then (st r)\<lparr>rel := ''canonical''\<rparr> else st r)"

section \<open>Example data\<close>

text \<open>
  An item with a \<^verbatim>\<open>"self"\<close>, a \<^verbatim>\<open>"child"\<close> and a \<^verbatim>\<open>"root"\<close> link, and two assets of which
  one is a GeoTIFF.
\<close>

definition example_store :: link_store where
  "example_store =
     (\<lambda>r. if r = 0 then \<lparr>rel = ''self'', link_href = ''https://pc/items/S2A''\<rparr>
          else if r = 1 then \<lparr>rel = ''child'', link_href = ''https://pc/items/S2A/sub''\<rparr>
          else \<lparr>rel = ''root'', link_href = ''https://pc''\<rparr>)"

definition example_assets :: "(string \<times> asset) list" where
  "example_assets =
     [(''B04'', \<lparr>href = ''https://pc/B04.tif'', media_type = Some ''image/tiff; application=geotiff''\<rparr>),
      (''thumb'', \<lparr>href = ''https://pc/thumb.png'', media_type = Some ''image/png''\<rparr>)]"

definition example_item :: item where
  "example_item =
     \<lparr>item_id = ''S2A'', assets = example_assets, links = [0, 1, 2], properties = ''{}''\<rparr>"

definition example_world :: world where
  "example_world = \<lparr>store = example_store, trace = []\<rparr>"

text \<open>
  Collaborators that all succeed: the catalog returns the example item, signing returns
  the assets as they are, every fetch and store works, the payload serialises to two
  bytes.
\<close>

definition example_env :: env where
  "example_env =
     \<lparr>json_dumps = (\<lambda>p. Inr ''{}''),
      client_open = (\<lambda>tr. None),
      client_search = (\<lambda>tr c d t n. Inr [example_item]),
      sign = (\<lambda>tr it. Inr (assets it)),
      http_get = (\<lambda>tr u. Inr ''bytes''),
      put_object = (\<lambda>tr b k body ct. None),
      utcnow = (\<lambda>tr. ''2024-06-02T10:00:00''),
      fromisoformat_other = (\<lambda>s. Inl ''Invalid isoformat string''),
      COLLECTION = ''sentinel-2-l2a'',
      CIRRUS_DATA_BUCKET = Some ''data'',
      CIRRUS_PAYLOAD_BUCKET = Some ''payloads''\<rparr>"

definition example_config :: task_config where
  "example_config =
     \<lparr>cfg_tile = Some ''33UUP'', cfg_date = Some ''2024-06-01'',
      cfg_download_assets = Some False, cfg_max_items = Some 5\<rparr>"

definition example_event :: payload where
  "example_event =
     \<lparr>payload_id = Some ''run-1'',
      process = Some [\<lparr>tasks = Some [(''planetary-computer-to-s3'', example_config)]\<rparr>],
      features = None, errors = None, passthrough = ''''\<rparr>"

text \<open>An environment whose payloads serialise to 240001 bytes and that has no payload bucket.\<close>

definition oversize_env :: env where
  "oversize_env =
     example_env\<lparr>json_dumps := (\<lambda>p. Inr (replicate 240001 CHR ''x'')),
                 client_search := (\<lambda>tr c d t n. Inr []),
                 CIRRUS_PAYLOAD_BUCKET := None\<rparr>"

text \<open>The \<^verbatim>\<open>Get\<close> requests of a trace, in order.\<close>

fun gets :: "call list \<Rightarrow> string list" where
  "gets [] = []"
| "gets (Get u # cs) = u # gets cs"
| "gets (c # cs) = gets cs"

text \<open>\<^verbatim>\<open>event["features"]\<close> and \<^verbatim>\<open>event["errors"]\<close> read as sequences, absent meaning empty.\<close>

definition features_of :: "payload \<Rightarrow> feature list" where
  "features_of p = (case features p of None \<Rightarrow> [] | Some fs \<Rightarrow> fs)"

definition errors_of :: "payload \<Rightarrow> error_record list" where
  "errors_of p = (case errors p of None \<Rightarrow> [] | Some es \<Rightarrow> es)"

text \<open>The example event with the date left out of the task configuration.\<close>

definition event_without_date :: payload where
  "event_without_date =
     example_event\<lparr>process :=
       Some [\<lparr>tasks = Some [(''planetary-computer-to-s3'', example_config\<lparr>cfg_date := None\<rparr>)]\<rparr>]\<rparr>"

text \<open>
  An item with two GeoTIFF bands, and collaborators under which the fetch of the first
  band is refused while everything else works.
\<close>

definition two_band_assets :: "(string \<times> asset) list" where
  "two_band_assets =
     [(''B04'', \<lparr>href = ''https://pc/B04.tif'', media_type = Some ''image/tiff; application=geotiff''\<rparr>),
      (''B08'', \<lparr>href = ''https://pc/B08.tif'', media_type = Some ''image/tiff; application=geotiff''\<rparr>)]"

definition two_band_item :: item where
  "two_band_item = example_item\<lparr>assets := two_band_assets\<rparr>"

definition flaky_env :: env where
  "flaky_env =
     example_env\<lparr>client_search := (\<lambda>tr c d t n. Inr [two_band_item]),
                 http_get :=
       (\<lambda>tr u. if u = ''https://pc/B04.tif'' then Inl ''503 Server Error'' else Inr ''bytes'')\<rparr>"

text \<open>The example event asking for the assets to be downloaded.\<close>

definition download_event :: payload where
  "download_event =
     example_event\<lparr>process :=
       Some [\<lparr>tasks = Some [(''planetary-computer-to-s3'',
                example_config\<lparr>cfg_download_assets := Some True\<rparr>)]\<rparr>]\<rparr>"

text \<open>
  An environment whose payloads serialise to 240001 bytes, the payload bucket being
  configured and every store working.
\<close>

definition offload_env :: env where
  "offload_env = example_env\<lparr>json_dumps := (\<lambda>p. Inr (replicate 240001 CHR ''x''))\<rparr>"

text \<open>
  An event that arrives with two features, and a catalog that answers with three items,
  in the order \<^verbatim>\<open>B\<close>, \<^verbatim>\<open>A\<close>, \<^verbatim>\<open>C\<close>.
\<close>

definition old_features :: "feature list" where
  "old_features =
     [\<lparr>f_id = ''old-1'', f_assets = [], f_links = [], f_properties = ''{}''\<rparr>,
      \<lparr>f_id = ''old-2'', f_assets = [], f_links = [], f_properties = ''{}''\<rparr>]"

definition event_with_features :: payload where
  "event_with_features = example_event\<lparr>features := Some old_features\<rparr>"

definition catalog_items :: "item list" where
  "catalog_items =
     [example_item\<lparr>item_id := ''B''\<rparr>,
      \<lparr>item_id = ''A'', assets = [], links = [], properties = ''{}''\<rparr>,
      \<lparr>item_id = ''C'', assets = example_assets, links = [2], properties = ''{}''\<rparr>]"

definition catalog_env :: env where
  "catalog_env = example_env\<lparr>client_search := (\<lambda>tr c d t n. Inr catalog_items)\<rparr>"

lemma kept_after_relabel_one:
  "rel (st r) = ''self'' \<Longrightarrow> kept (st(r := (st r)\<lparr>rel := ''canonical''\<rparr>)) = kept st"
  by (rule ext) (simp add: kept_def)

lemma relabel_step:
  "rel (st r) = ''self'' \<Longrightarrow>
   relabel rs (st(r := (st r)\<lparr>rel := ''canonical''\<rparr>)) = relabel (r # rs) st"
  by (rule ext) (auto simp: relabel_def)

lemma relabel_skip:
  "rel (st r) \<noteq> ''self'' \<Longrightarrow> relabel (r # rs) st = relabel rs st"
  by (rule ext) (auto simp: relabel_def)

lemma mark_links_eq:
  "mark_links rs (st, acc) = (relabel rs st, acc @ filter (\<lambda>r. \<not> kept st r) rs)"
proof (induction rs arbitrary: st acc)
  case Nil
  show ?case by (simp add: relabel_def)
next
  case (Cons r rs)
  show ?case
  proof (cases "rel (st r) = ''self''")
    case True
    let ?st = "st(r := (st r)\<lparr>rel := ''canonical''\<rparr>)"
    from True have k: "kept st r" by (simp add: kept_def)
    from True have "mark_links (r # rs) (st, acc) = mark_links rs (?st, acc)"
      by simp
    also have "\<dots> = (relabel rs ?st, acc @ filter (\<lambda>r. \<not> kept ?st r) rs)"
      by (rule Cons.IH)
    also have "\<dots> = (relabel (r # rs) st, acc @ filter (\<lambda>r. \<not> kept st r) rs)"
      by (simp only: kept_after_relabel_one [of st r, OF True] relabel_step [of st r, OF True])
    finally show ?thesis using k by simp
  next
    case False
    then show ?thesis
      by (simp add: Cons.IH relabel_skip kept_def)
  qed
qed

lemma remove_links_filter:
  "\<forall>x \<in> set pre. P x \<Longrightarrow>
   remove_links (filter (\<lambda>x. \<not> P x) xs) (pre @ xs) = Inr (pre @ filter P xs)"
proof (induction xs arbitrary: pre)
  case Nil
  show ?case by simp
next
  case (Cons x xs)
  show ?case
  proof (cases "P x")
    case True
    with Cons.prems have "\<forall>y \<in> set (pre @ [x]). P y" by simp
    from Cons.IH [OF this] True show ?thesis by simp
  next
    case False
    with Cons.prems have "x \<notin> set pre" by blast
    then have "remove1 x (pre @ x # xs) = pre @ xs"
      by (simp add: remove1_append)
    with False Cons.IH [OF Cons.prems] show ?thesis
      by (simp add: list_remove_def)
  qed
qed

lemma prepare_item_for_indexing_eq:
  "prepare_item_for_indexing st it =
     Inr (relabel (links it) st, it\<lparr>links := filter (kept st) (links it)\<rparr>)"
  using remove_links_filter [of "[]" "kept st" "links it"]
  by (simp add: prepare_item_for_indexing_def mark_links_eq)

lemma rel_relabel_kept:
  "r \<in> set rs \<Longrightarrow> kept st r \<Longrightarrow>
   rel (relabel rs st r) \<in> {''canonical'', ''collection'', ''root''}"
  by (auto simp: relabel_def kept_def)

section \<open>Claims about the metadata-only transform\<close>

lemma process_item_metadata_only:
  "process_item env False it w =
     (Inr (to_dict (relabel (links it) (store w)) (it\<lparr>links := filter (kept (store w)) (links it)\<rparr>)),
      w\<lparr>store := relabel (links it) (store w)\<rparr>)"
  by (simp add: process_item_def prepare_item_for_indexing_eq)

text \<open>
  Claim C1. An item processed with \<^verbatim>\<open>download_assets\<close> false goes through
  \<^verbatim>\<open>prepare_item_for_indexing\<close>, which never raises. Afterwards every link of the item,
  and so every link of the feature appended for it, has a relation among
  \<^verbatim>\<open>"canonical"\<close>, \<^verbatim>\<open>"collection"\<close>, \<^verbatim>\<open>"root"\<close>; and every link that was \<^verbatim>\<open>"self"\<close> before
  is still in the list and is \<^verbatim>\<open>"canonical"\<close> now.
\<close>

theorem metadata_only_links:
  "\<exists>st' it'.
     prepare_item_for_indexing (store w) it = Inr (st', it') \<and>
     process_item env False it w = (Inr (to_dict st' it'), w\<lparr>store := st'\<rparr>) \<and>
     (\<forall>r \<in> set (links it'). rel (st' r) \<in> {''canonical'', ''collection'', ''root''}) \<and>
     (\<forall>l \<in> set (f_links (to_dict st' it')). rel l \<in> {''canonical'', ''collection'', ''root''}) \<and>
     (\<forall>r \<in> set (links it). rel (store w r) = ''self'' \<longrightarrow>
        r \<in> set (links it') \<and> rel (st' r) = ''canonical'')"
proof -
  let ?st = "relabel (links it) (store w)"
  let ?it = "it\<lparr>links := filter (kept (store w)) (links it)\<rparr>"
  have a: "prepare_item_for_indexing (store w) it = Inr (?st, ?it)"
    by (rule prepare_item_for_indexing_eq)
  have b: "process_item env False it w = (Inr (to_dict ?st ?it), w\<lparr>store := ?st\<rparr>)"
    by (rule process_item_metadata_only)
  have c: "\<forall>r \<in> set (links ?it). rel (?st r) \<in> {''canonical'', ''collection'', ''root''}"
    using rel_relabel_kept by simp
  then have d: "\<forall>l \<in> set (f_links (to_dict ?st ?it)).
      rel l \<in> {''canonical'', ''collection'', ''root''}"
    by (simp add: to_dict_def)
  have e: "\<forall>r \<in> set (links it). rel (store w r) = ''self'' \<longrightarrow>
      r \<in> set (links ?it) \<and> rel (?st r) = ''canonical''"
    by (simp add: kept_def relabel_def)
  from a b c d e show ?thesis by blast
qed

theorem metadata_only_links_witness:
  "\<exists>st' it'.
     prepare_item_for_indexing (store example_world) example_item = Inr (st', it') \<and>
     0 \<in> set (links it') \<and> rel (st' 0) = ''canonical'' \<and>
     (\<forall>r \<in> set (links it'). rel (st' r) \<in> {''canonical'', ''collection'', ''root''})"
proof -
  have s: "rel (store example_world 0) = ''self''" and m: "0 \<in> set (links example_item)"
    by (simp_all add: example_world_def example_store_def example_item_def)
  from metadata_only_links [of example_world example_item] s m show ?thesis
    by blast
qed

text \<open>
  Claim C10. \<^verbatim>\<open>prepare_item_for_indexing\<close> returns the item with only its list of links
  replaced: id, assets and the remaining fields are as before. The new list is the old one
  filtered, so the links that stay are in their original order; and of a link object
  only the relation is ever rewritten.
\<close>

theorem metadata_only_frame:
  "\<exists>st'.
     prepare_item_for_indexing st it =
       Inr (st', it\<lparr>links := filter (kept st) (links it)\<rparr>) \<and>
     subseq (filter (kept st) (links it)) (links it) \<and>
     (\<forall>r. link_href (st' r) = link_href (st r))"
proof -
  have "\<forall>r. link_href (relabel (links it) st r) = link_href (st r)"
    by (simp add: relabel_def)
  then show ?thesis
    using prepare_item_for_indexing_eq [of st it] by simp
qed

theorem metadata_only_frame_witness:
  "\<exists>st'. prepare_item_for_indexing example_store example_item =
       Inr (st', example_item\<lparr>links := [0, 2]\<rparr>)"
proof -
  have "filter (kept example_store) (links example_item) = [0, 2]"
    by (simp add: kept_def example_store_def example_item_def)
  with metadata_only_frame [of example_store example_item] show ?thesis
    by auto
qed

section \<open>Claims about the size check and the response\<close>

lemma should_upload_decision:
  "fst (should_upload_to_s3 env p w) =
     (case json_dumps env p of Inl msg \<Rightarrow> True | Inr s \<Rightarrow> 240000 < length s)"
  by (simp add: should_upload_to_s3_def split: sum.splits)

lemma emit_result_cases:
  "emit_result env p w = (res, p', w') \<Longrightarrow>
   p' = p \<and>
   (case res of
      Inr (Url u) \<Rightarrow> fst (should_upload_to_s3 env p w)
    | Inr (Full q) \<Rightarrow> \<not> fst (should_upload_to_s3 env p w) \<and> q = p
    | Inl e \<Rightarrow> fst (should_upload_to_s3 env p w))"
  by (auto simp: emit_result_def split: prod.splits bool.splits sum.splits)

lemma run_items_Inr:
  "run_items env dl its ev w = (Inr r, ev', w') \<Longrightarrow>
   \<exists>fs w1. process_items env dl its w = (Inr fs, w1) \<and>
           ev' = extend_features ev fs \<and>
           emit_result env (extend_features ev fs) w1 = (Inr r, ev', w')"
  by (auto simp: run_items_def dest: emit_result_cases split: prod.splits sum.splits)

lemma handler_try_Inr:
  "handler_try env ev w = (Inr r, ev', w') \<Longrightarrow>
   \<exists>pc others its w1 fs w2.
     process ev = Some (pc # others) \<and>
     \<not> falsy (cfg_tile (get_task_config pc)) \<and> \<not> falsy (cfg_date (get_task_config pc)) \<and>
     query_planetary_computer env (py_str (cfg_tile (get_task_config pc)))
        (py_str (cfg_date (get_task_config pc)))
        (item_limit (get_task_config pc)) (download_flag (get_task_config pc)) w
       = (Inr its, w1) \<and>
     process_items env (download_flag (get_task_config pc)) its w1 = (Inr fs, w2) \<and>
     ev' = extend_features ev fs \<and>
     emit_result env (extend_features ev fs) w2 = (Inr r, ev', w')"
  unfolding handler_try_def Let_def
  by (auto split: sum.splits option.splits list.splits if_splits prod.splits
           dest!: run_items_Inr)

lemma lambda_handler_Inr:
  "lambda_handler env ev w = (Inr r, ev', w') \<longleftrightarrow> handler_try env ev w = (Inr r, ev', w')"
  by (auto simp: lambda_handler_def Let_def split: prod.splits sum.splits)

text \<open>
  A valid request whose catalog query and item loop go through: the handler comes down to
  the size check and the response on the extended event.
\<close>

lemma handler_try_items:
  assumes "json_dumps env event = Inr logged" and "process event = Some (pc # others)"
    and "\<not> falsy (cfg_tile (get_task_config pc))"
    and "\<not> falsy (cfg_date (get_task_config pc))"
    and "query_planetary_computer env (py_str (cfg_tile (get_task_config pc)))
           (py_str (cfg_date (get_task_config pc)))
           (item_limit (get_task_config pc)) (download_flag (get_task_config pc)) w
         = (Inr its, w1)"
    and "process_items env (download_flag (get_task_config pc)) its w1 = (Inr fs, w2)"
  shows "handler_try env event w = emit_result env (extend_features event fs) w2"
  using assms by (simp add: handler_try_def Let_def run_items_def)

lemma lambda_handler_items_features:
  assumes "json_dumps env event = Inr logged" and "process event = Some (pc # others)"
    and "\<not> falsy (cfg_tile (get_task_config pc))"
    and "\<not> falsy (cfg_date (get_task_config pc))"
    and "query_planetary_computer env (py_str (cfg_tile (get_task_config pc)))
           (py_str (cfg_date (get_task_config pc)))
           (item_limit (get_task_config pc)) (download_flag (get_task_config pc)) w
         = (Inr its, w1)"
    and "process_items env (download_flag (get_task_config pc)) its w1 = (Inr fs, w2)"
  shows "\<exists>res event' w'.
     lambda_handler env event w = (res, event', w') \<and>
     features event' = Some (features_of event @ fs)"
proof -
  obtain res p w' where e: "emit_result env (extend_features event fs) w2 = (res, p, w')"
    by (cases "emit_result env (extend_features event fs) w2") auto
  from emit_result_cases [OF e] have p: "p = extend_features event fs"
    by simp
  from e p handler_try_items [OF assms]
  have h: "handler_try env event w = (res, extend_features event fs, w')"
    by simp
  have f: "features (extend_features event fs) = Some (features_of event @ fs)"
    by (simp add: extend_features_def features_of_def)
  show ?thesis
  proof (cases res)
    case (Inl x)
    with h f show ?thesis
      by (simp add: lambda_handler_def Let_def)
  next
    case (Inr r)
    with h f show ?thesis
      by (simp add: lambda_handler_def)
  qed
qed

lemma emit_result_full:
  assumes "json_dumps env p = Inr body" and "\<not> 240000 < length body"
  shows "emit_result env p w = (Inr (Full p), p, w)"
  using assms by (simp add: emit_result_def should_upload_to_s3_def)

lemma emit_result_url:
  assumes "json_dumps env p = Inr body" and "240000 < length body"
    and "CIRRUS_PAYLOAD_BUCKET env = Some bucket" and "bucket \<noteq> []"
    and "payload_id p = Some pid"
    and "put_object env (trace w) (Some bucket) (''planetary-computer-to-s3/'' @ pid @ ''.json'')
           body ''application/json'' = None"
  shows "emit_result env p w =
     (Inr (Url (''s3://'' @ bucket @ ''/planetary-computer-to-s3/'' @ pid @ ''.json'')), p,
      emit (PutObject (Some bucket) (''planetary-computer-to-s3/'' @ pid @ ''.json'') body
              ''application/json'') w)"
  using assms
  by (simp add: emit_result_def should_upload_to_s3_def upload_payload_to_s3_def
        upload_try_def TASK_NAME_def Let_def)

text \<open>
  Claim C9. When serialising the payload fails, \<^verbatim>\<open>should_upload_to_s3\<close> answers
  \<^verbatim>\<open>True\<close>, and all it does besides is log one warning: it returns normally.
\<close>

theorem size_check_failure_defaults_to_offload:
  "json_dumps env p = Inl msg \<Longrightarrow>
   should_upload_to_s3 env p w = (True, emit (LogSizeUnknown (Upstream msg)) w)"
  by (simp add: should_upload_to_s3_def)

theorem size_check_failure_defaults_to_offload_witness:
  "should_upload_to_s3 (example_env\<lparr>json_dumps := (\<lambda>p. Inl ''Circular reference detected'')\<rparr>)
     example_event example_world =
   (True, emit (LogSizeUnknown (Upstream ''Circular reference detected'')) example_world)"
  using size_check_failure_defaults_to_offload
    [of "example_env\<lparr>json_dumps := (\<lambda>p. Inl ''Circular reference detected'')\<rparr>"
        example_event "''Circular reference detected''" example_world]
  by (simp add: example_env_def)

lemma example_config_of_event:
  "process example_event = Some [\<lparr>tasks = Some [(''planetary-computer-to-s3'', example_config)]\<rparr>]"
  "get_task_config \<lparr>tasks = Some [(''planetary-computer-to-s3'', example_config)]\<rparr> = example_config"
  by (simp_all add: example_event_def get_task_config_def TASK_NAME_def)

lemma example_config_fields:
  "cfg_tile example_config = Some ''33UUP''"
  "cfg_date example_config = Some ''2024-06-01''"
  "download_flag example_config = False"
  "item_limit example_config = 5"
  by (simp_all add: example_config_def download_flag_def item_limit_def)

lemma example_process_item:
  assumes "store w = example_store"
  shows "process_item env False example_item w =
     (Inr (to_dict (relabel [0, 1, 2] example_store) (example_item\<lparr>links := [0, 2]\<rparr>)),
      w\<lparr>store := relabel [0, 1, 2] example_store\<rparr>)"
proof -
  have k: "filter (kept example_store) [0, 1, 2] = [0, 2]"
    by (simp add: kept_def example_store_def)
  have l: "links example_item = [0, 1, 2]"
    by (simp add: example_item_def)
  show ?thesis
    by (simp only: process_item_metadata_only assms l k)
qed

lemma oversize_run:
  "fst (lambda_handler oversize_env example_event example_world) = Inl bucket_not_set"
proof -
  have q: "query_planetary_computer oversize_env ''33UUP'' ''2024-06-01'' 5 False example_world =
     (Inr [],
      example_world\<lparr>trace :=
        [OpenClient,
         Search ''sentinel-2-l2a'' ''2024-06-01T00:00:00/2024-06-02T00:00:00'' ''33UUP'' 5]\<rparr>)"
    by (simp add: query_planetary_computer_def query_try_def Let_def emit_def oversize_env_def
        example_env_def example_world_def datetime_query_def fromisoformat_def digit_val_def
        add_one_day_def days_in_month_def is_leap_def isoformat_def pad4_def pad2_def digit_def)
  have j: "json_dumps oversize_env = (\<lambda>p. Inr (replicate 240001 CHR ''x''))"
    and b: "CIRRUS_PAYLOAD_BUCKET oversize_env = None"
    by (simp_all add: oversize_env_def)
  have "handler_try oversize_env example_event example_world =
      run_items oversize_env False [] example_event
        (example_world\<lparr>trace :=
          [OpenClient,
           Search ''sentinel-2-l2a'' ''2024-06-01T00:00:00/2024-06-02T00:00:00'' ''33UUP'' 5]\<rparr>)"
    by (simp add: handler_try_def example_config_of_event example_config_fields q j)
  then show ?thesis
    unfolding lambda_handler_def
    by (simp add: run_items_def j b emit_result_def Let_def
          should_upload_to_s3_def upload_payload_to_s3_def)
qed

text \<open>
  Claim C2, as stated, fails. With a payload of 240001 serialised bytes the offload
  decision is true, yet when no payload bucket is configured the handler returns no
  \<^verbatim>\<open>{"url": ...}\<close> object: \<^verbatim>\<open>upload_payload_to_s3\<close> raises and the handler raises with it.
\<close>

theorem offload_without_bucket_raises:
  "fst (should_upload_to_s3 oversize_env (extend_features example_event []) example_world) \<and>
   fst (lambda_handler oversize_env example_event example_world) = Inl bucket_not_set"
  using oversize_run
  by (simp add: should_upload_decision oversize_env_def)

text \<open>
  Claim C2, amended. When the payload serialises, the decision is true exactly when the
  serialisation is longer than 240000 bytes. Whenever the handler returns a response, the
  response is the \<^verbatim>\<open>{"url": ...}\<close> object exactly when the decision on the returned event
  is true, and is that event itself otherwise. When the decision is true and no payload
  bucket is configured, the upload raises and no response is returned. And for a valid
  request whose query and item loop go through, the extended event serialising to
  \<open>body\<close>: when \<open>body\<close> is at most 240000 bytes long the handler returns the extended event
  itself, touching nothing more; when it is longer, the payload bucket is configured, the
  event has an id and the store succeeds, the handler returns
  \<^verbatim>\<open>{"url": "s3://<bucket>/planetary-computer-to-s3/<id>.json"}\<close>, having stored \<open>body\<close> under
  that key.
\<close>

theorem offload_decision_and_response:
  "(json_dumps env p = Inr s \<longrightarrow> fst (should_upload_to_s3 env p w) = (240000 < length s)) \<and>
   (lambda_handler env event w0 = (Inr r, event', w') \<longrightarrow>
      (case r of
         Url u \<Rightarrow> fst (should_upload_to_s3 env event' w)
       | Full q \<Rightarrow> \<not> fst (should_upload_to_s3 env event' w) \<and> q = event')) \<and>
   (fst (should_upload_to_s3 env p w) \<and> CIRRUS_PAYLOAD_BUCKET env = None \<longrightarrow>
      fst (emit_result env p w) = Inl bucket_not_set) \<and>
   (json_dumps env event = Inr logged \<and> process event = Some (pc # others) \<and>
    \<not> falsy (cfg_tile (get_task_config pc)) \<and> \<not> falsy (cfg_date (get_task_config pc)) \<and>
    query_planetary_computer env (py_str (cfg_tile (get_task_config pc)))
       (py_str (cfg_date (get_task_config pc)))
       (item_limit (get_task_config pc)) (download_flag (get_task_config pc)) w0
      = (Inr its, w1) \<and>
    process_items env (download_flag (get_task_config pc)) its w1 = (Inr fs, w2) \<and>
    json_dumps env (extend_features event fs) = Inr body \<longrightarrow>
      (\<not> 240000 < length body \<longrightarrow>
         lambda_handler env event w0 =
           (Inr (Full (extend_features event fs)), extend_features event fs, w2)) \<and>
      (240000 < length body \<and> CIRRUS_PAYLOAD_BUCKET env = Some bucket \<and> bucket \<noteq> [] \<and>
       payload_id event = Some pid \<and>
       put_object env (trace w2) (Some bucket) (''planetary-computer-to-s3/'' @ pid @ ''.json'')
         body ''application/json'' = None \<longrightarrow>
         lambda_handler env event w0 =
           (Inr (Url (''s3://'' @ bucket @ ''/planetary-computer-to-s3/'' @ pid @ ''.json'')),
            extend_features event fs,
            emit (PutObject (Some bucket) (''planetary-computer-to-s3/'' @ pid @ ''.json'') body
                    ''application/json'') w2)))"
proof (intro conjI impI)
  assume "json_dumps env p = Inr s"
  then show "fst (should_upload_to_s3 env p w) = (240000 < length s)"
    by (simp add: should_upload_decision)
next
  assume "lambda_handler env event w0 = (Inr r, event', w')"
  then have "handler_try env event w0 = (Inr r, event', w')"
    by (simp add: lambda_handler_Inr)
  then obtain w2 where "emit_result env event' w2 = (Inr r, event', w')"
    by (auto dest!: handler_try_Inr)
  from emit_result_cases [OF this]
  show "case r of
         Url u \<Rightarrow> fst (should_upload_to_s3 env event' w)
       | Full q \<Rightarrow> \<not> fst (should_upload_to_s3 env event' w) \<and> q = event'"
    by (simp add: should_upload_decision split: response.splits)
next
  assume "fst (should_upload_to_s3 env p w) \<and> CIRRUS_PAYLOAD_BUCKET env = None"
  then show "fst (emit_result env p w) = Inl bucket_not_set"
    by (auto simp: emit_result_def upload_payload_to_s3_def split: prod.splits bool.splits)
next
  assume h: "json_dumps env event = Inr logged \<and> process event = Some (pc # others) \<and>
    \<not> falsy (cfg_tile (get_task_config pc)) \<and> \<not> falsy (cfg_date (get_task_config pc)) \<and>
    query_planetary_computer env (py_str (cfg_tile (get_task_config pc)))
       (py_str (cfg_date (get_task_config pc)))
       (item_limit (get_task_config pc)) (download_flag (get_task_config pc)) w0
      = (Inr its, w1) \<and>
    process_items env (download_flag (get_task_config pc)) its w1 = (Inr fs, w2) \<and>
    json_dumps env (extend_features event fs) = Inr body"
    and n: "\<not> 240000 < length body"
  from h have a: "json_dumps env event = Inr logged" "process event = Some (pc # others)"
    "\<not> falsy (cfg_tile (get_task_config pc))" "\<not> falsy (cfg_date (get_task_config pc))"
    "query_planetary_computer env (py_str (cfg_tile (get_task_config pc)))
       (py_str (cfg_date (get_task_config pc)))
       (item_limit (get_task_config pc)) (download_flag (get_task_config pc)) w0
      = (Inr its, w1)"
    "process_items env (download_flag (get_task_config pc)) its w1 = (Inr fs, w2)"
    by blast+
  note t = handler_try_items [OF a]
  from h have "json_dumps env (extend_features event fs) = Inr body"
    by simp
  from emit_result_full [OF this n, of w2] t
  show "lambda_handler env event w0 =
      (Inr (Full (extend_features event fs)), extend_features event fs, w2)"
    by (simp add: lambda_handler_def)
next
  assume h: "json_dumps env event = Inr logged \<and> process event = Some (pc # others) \<and>
    \<not> falsy (cfg_tile (get_task_config pc)) \<and> \<not> falsy (cfg_date (get_task_config pc)) \<and>
    query_planetary_computer env (py_str (cfg_tile (get_task_config pc)))
       (py_str (cfg_date (get_task_config pc)))
       (item_limit (get_task_config pc)) (download_flag (get_task_config pc)) w0
      = (Inr its, w1) \<and>
    process_items env (download_flag (get_task_config pc)) its w1 = (Inr fs, w2) \<and>
    json_dumps env (extend_features event fs) = Inr body"
    and u: "240000 < length body \<and> CIRRUS_PAYLOAD_BUCKET env = Some bucket \<and> bucket \<noteq> [] \<and>
       payload_id event = Some pid \<and>
       put_object env (trace w2) (Some bucket) (''planetary-computer-to-s3/'' @ pid @ ''.json'')
         body ''application/json'' = None"
  from h have a: "json_dumps env event = Inr logged" "process event = Some (pc # others)"
    "\<not> falsy (cfg_tile (get_task_config pc))" "\<not> falsy (cfg_date (get_task_config pc))"
    "query_planetary_computer env (py_str (cfg_tile (get_task_config pc)))
       (py_str (cfg_date (get_task_config pc)))
       (item_limit (get_task_config pc)) (download_flag (get_task_config pc)) w0
      = (Inr its, w1)"
    "process_items env (download_flag (get_task_config pc)) its w1 = (Inr fs, w2)"
    by blast+
  note t = handler_try_items [OF a]
  from h have j: "json_dumps env (extend_features event fs) = Inr body"
    by simp
  from u have i: "payload_id (extend_features event fs) = Some pid"
    by (simp add: extend_features_def)
  from u have b: "240000 < length body" "CIRRUS_PAYLOAD_BUCKET env = Some bucket" "bucket \<noteq> []"
    "put_object env (trace w2) (Some bucket) (''planetary-computer-to-s3/'' @ pid @ ''.json'')
       body ''application/json'' = None"
    by blast+
  have
    "emit_result env (extend_features event fs) w2 =
       (Inr (Url (''s3://'' @ bucket @ ''/planetary-computer-to-s3/'' @ pid @ ''.json'')),
        extend_features event fs,
        emit (PutObject (Some bucket) (''planetary-computer-to-s3/'' @ pid @ ''.json'') body
                ''application/json'') w2)"
    by (rule emit_result_url [OF j b(1,2,3) i b(4)])
  with t
  show "lambda_handler env event w0 =
      (Inr (Url (''s3://'' @ bucket @ ''/planetary-computer-to-s3/'' @ pid @ ''.json'')),
       extend_features event fs,
       emit (PutObject (Some bucket) (''planetary-computer-to-s3/'' @ pid @ ''.json'') body
               ''application/json'') w2)"
    by (simp add: lambda_handler_def)
qed

text \<open>The catalog query of the example configuration, for collaborators that answer.\<close>

lemma example_date_query:
  assumes "client_open env (trace w) = None" and "COLLECTION env = ''sentinel-2-l2a''"
    and "client_search env (trace w @ [OpenClient]) ''sentinel-2-l2a''
           ''2024-06-01T00:00:00/2024-06-02T00:00:00'' ''33UUP'' 5 = Inr items"
    and "length items \<le> 20"
  shows "query_planetary_computer env ''33UUP'' ''2024-06-01'' 5 dl w =
     (Inr items,
      w\<lparr>trace := trace w @
        [OpenClient,
         Search ''sentinel-2-l2a'' ''2024-06-01T00:00:00/2024-06-02T00:00:00'' ''33UUP'' 5]\<rparr>)"
proof -
  have "datetime_query env ''2024-06-01'' = Inr ''2024-06-01T00:00:00/2024-06-02T00:00:00''"
    by (simp add: datetime_query_def fromisoformat_def digit_val_def
          add_one_day_def days_in_month_def is_leap_def isoformat_def pad4_def pad2_def digit_def)
  with assms show ?thesis
    by (simp add: query_planetary_computer_def query_try_def Let_def emit_def)
qed

theorem offload_decision_and_response_witness:
  "lambda_handler offload_env example_event example_world =
     (Inr (Url ''s3://payloads/planetary-computer-to-s3/run-1.json''),
      extend_features example_event
        [to_dict (relabel [0, 1, 2] example_store) (example_item\<lparr>links := [0, 2]\<rparr>)],
      \<lparr>store = relabel [0, 1, 2] example_store,
       trace = [OpenClient,
         Search ''sentinel-2-l2a'' ''2024-06-01T00:00:00/2024-06-02T00:00:00'' ''33UUP'' 5,
         PutObject (Some ''payloads'') ''planetary-computer-to-s3/run-1.json''
           (replicate 240001 CHR ''x'') ''application/json'']\<rparr>) \<and>
   fst (should_upload_to_s3 offload_env
          (extend_features example_event
             [to_dict (relabel [0, 1, 2] example_store) (example_item\<lparr>links := [0, 2]\<rparr>)])
          example_world) \<and>
   lambda_handler example_env example_event example_world =
     (Inr (Full (extend_features example_event
              [to_dict (relabel [0, 1, 2] example_store) (example_item\<lparr>links := [0, 2]\<rparr>)])),
      extend_features example_event
        [to_dict (relabel [0, 1, 2] example_store) (example_item\<lparr>links := [0, 2]\<rparr>)],
      \<lparr>store = relabel [0, 1, 2] example_store,
       trace = [OpenClient,
         Search ''sentinel-2-l2a'' ''2024-06-01T00:00:00/2024-06-02T00:00:00'' ''33UUP'' 5]\<rparr>) \<and>
   \<not> fst (should_upload_to_s3 example_env
          (extend_features example_event
             [to_dict (relabel [0, 1, 2] example_store) (example_item\<lparr>links := [0, 2]\<rparr>)])
          example_world) \<and>
   fst (should_upload_to_s3 oversize_env example_event example_world) \<and>
   fst (emit_result oversize_env example_event example_world) = Inl bucket_not_set"
proof -
  let ?pc = "\<lparr>tasks = Some [(''planetary-computer-to-s3'', example_config)]\<rparr>"
  let ?wq = "example_world\<lparr>trace := trace example_world @
        [OpenClient,
         Search ''sentinel-2-l2a'' ''2024-06-01T00:00:00/2024-06-02T00:00:00'' ''33UUP'' 5]\<rparr>"
  let ?fs = "[to_dict (relabel [0, 1, 2] example_store) (example_item\<lparr>links := [0, 2]\<rparr>)]"
  let ?w2 = "?wq\<lparr>store := relabel [0, 1, 2] example_store\<rparr>"
  let ?big = "replicate 240001 CHR ''x''"
  have s: "store ?wq = example_store"
    by (simp add: example_world_def)
  have i: "process_items env False [example_item] ?wq = (Inr ?fs, ?w2)" for env
    by (simp add: example_process_item [OF s])
  have v: "\<not> falsy (cfg_tile (get_task_config ?pc))" "\<not> falsy (cfg_date (get_task_config ?pc))"
    by (simp_all add: example_config_of_event example_config_fields)
  have q: "query_planetary_computer env (py_str (cfg_tile (get_task_config ?pc)))
       (py_str (cfg_date (get_task_config ?pc)))
       (item_limit (get_task_config ?pc)) (download_flag (get_task_config ?pc)) example_world
      = (Inr [example_item], ?wq)"
    if "client_open env = client_open example_env" "COLLECTION env = COLLECTION example_env"
       "client_search env = client_search example_env" for env
    using that
    by (simp add: example_config_of_event example_config_fields example_date_query
          example_env_def)
  have h: "json_dumps env example_event = Inr body \<and>
      process example_event = Some (?pc # []) \<and>
      \<not> falsy (cfg_tile (get_task_config ?pc)) \<and> \<not> falsy (cfg_date (get_task_config ?pc)) \<and>
      query_planetary_computer env (py_str (cfg_tile (get_task_config ?pc)))
         (py_str (cfg_date (get_task_config ?pc)))
         (item_limit (get_task_config ?pc)) (download_flag (get_task_config ?pc)) example_world
        = (Inr [example_item], ?wq) \<and>
      process_items env (download_flag (get_task_config ?pc)) [example_item] ?wq
        = (Inr ?fs, ?w2) \<and>
      json_dumps env (extend_features example_event ?fs) = Inr body"
    if "client_open env = client_open example_env" "COLLECTION env = COLLECTION example_env"
       "client_search env = client_search example_env" "json_dumps env = (\<lambda>p. Inr body)"
    for env body
    using that v q [OF that(1,2,3)] i [of env]
    by (simp add: example_config_of_event example_config_fields)
  have ho: "json_dumps offload_env example_event = Inr ?big \<and>
      process example_event = Some (?pc # []) \<and>
      \<not> falsy (cfg_tile (get_task_config ?pc)) \<and> \<not> falsy (cfg_date (get_task_config ?pc)) \<and>
      query_planetary_computer offload_env (py_str (cfg_tile (get_task_config ?pc)))
         (py_str (cfg_date (get_task_config ?pc)))
         (item_limit (get_task_config ?pc)) (download_flag (get_task_config ?pc)) example_world
        = (Inr [example_item], ?wq) \<and>
      process_items offload_env (download_flag (get_task_config ?pc)) [example_item] ?wq
        = (Inr ?fs, ?w2) \<and>
      json_dumps offload_env (extend_features example_event ?fs) = Inr ?big"
    by (rule h) (simp_all add: offload_env_def)
  have he: "json_dumps example_env example_event = Inr ''{}'' \<and>
      process example_event = Some (?pc # []) \<and>
      \<not> falsy (cfg_tile (get_task_config ?pc)) \<and> \<not> falsy (cfg_date (get_task_config ?pc)) \<and>
      query_planetary_computer example_env (py_str (cfg_tile (get_task_config ?pc)))
         (py_str (cfg_date (get_task_config ?pc)))
         (item_limit (get_task_config ?pc)) (download_flag (get_task_config ?pc)) example_world
        = (Inr [example_item], ?wq) \<and>
      process_items example_env (download_flag (get_task_config ?pc)) [example_item] ?wq
        = (Inr ?fs, ?w2) \<and>
      json_dumps example_env (extend_features example_event ?fs) = Inr ''{}''"
    by (rule h) (simp_all add: example_env_def)
  have u: "240000 < length ?big \<and> CIRRUS_PAYLOAD_BUCKET offload_env = Some ''payloads'' \<and>
      ''payloads'' \<noteq> [] \<and> payload_id example_event = Some ''run-1'' \<and>
      put_object offload_env (trace ?w2) (Some ''payloads'')
        (''planetary-computer-to-s3/'' @ ''run-1'' @ ''.json'') ?big ''application/json'' = None"
    by (simp add: offload_env_def example_env_def example_event_def)
  note c = offload_decision_and_response
    [where env = offload_env and event = example_event and ?w0.0 = example_world
       and pc = ?pc and others = "[]" and its = "[example_item]" and ?w1.0 = ?wq
       and fs = ?fs and ?w2.0 = ?w2 and body = ?big and logged = ?big
       and bucket = "''payloads''" and pid = "''run-1''"
       and p = "extend_features example_event ?fs" and s = ?big and w = example_world]
  from c ho u have r1: "lambda_handler offload_env example_event example_world =
      (Inr (Url (''s3://'' @ ''payloads'' @ ''/planetary-computer-to-s3/'' @ ''run-1'' @ ''.json'')),
       extend_features example_event ?fs,
       emit (PutObject (Some ''payloads'') (''planetary-computer-to-s3/'' @ ''run-1'' @ ''.json'')
               ?big ''application/json'') ?w2)"
    by blast
  from c ho have r2: "fst (should_upload_to_s3 offload_env (extend_features example_event ?fs)
      example_world)"
    by simp
  note d = offload_decision_and_response
    [where env = example_env and event = example_event and ?w0.0 = example_world
       and pc = ?pc and others = "[]" and its = "[example_item]" and ?w1.0 = ?wq
       and fs = ?fs and ?w2.0 = ?w2 and body = "''{}''" and logged = "''{}''"
       and p = "extend_features example_event ?fs" and s = "''{}''" and w = example_world]
  from d he have r3: "lambda_handler example_env example_event example_world =
      (Inr (Full (extend_features example_event ?fs)), extend_features example_event ?fs, ?w2)"
    by simp
  from d he have r4: "\<not> fst (should_upload_to_s3 example_env (extend_features example_event ?fs)
      example_world)"
    by simp
  have a: "json_dumps oversize_env example_event = Inr ?big"
    and b: "CIRRUS_PAYLOAD_BUCKET oversize_env = None"
    by (simp_all add: oversize_env_def)
  note e = offload_decision_and_response
    [where env = oversize_env and p = example_event and s = ?big and w = example_world]
  from e a b
  have r5: "fst (should_upload_to_s3 oversize_env example_event example_world)"
    and r6: "fst (emit_result oversize_env example_event example_world) = Inl bucket_not_set"
    by simp_all
  from r1 have r1': "lambda_handler offload_env example_event example_world =
     (Inr (Url ''s3://payloads/planetary-computer-to-s3/run-1.json''),
      extend_features example_event ?fs,
      \<lparr>store = relabel [0, 1, 2] example_store,
       trace = [OpenClient,
         Search ''sentinel-2-l2a'' ''2024-06-01T00:00:00/2024-06-02T00:00:00'' ''33UUP'' 5,
         PutObject (Some ''payloads'') ''planetary-computer-to-s3/run-1.json''
           ?big ''application/json'']\<rparr>)"
    by (simp add: emit_def example_world_def)
  from r3 have r3': "lambda_handler example_env example_event example_world =
      (Inr (Full (extend_features example_event ?fs)), extend_features example_event ?fs,
      \<lparr>store = relabel [0, 1, 2] example_store,
       trace = [OpenClient,
         Search ''sentinel-2-l2a'' ''2024-06-01T00:00:00/2024-06-02T00:00:00'' ''33UUP'' 5]\<rparr>)"
    by (simp add: example_world_def)
  from r1' r2 r3' r4 r5 r6 show ?thesis
    by (intro conjI)
qed
section \<open>Claims about the event: features and errors\<close>

lemma emit_result_event:
  "emit_result env p w = (res, p', w') \<Longrightarrow> p' = p"
  by (auto simp: emit_result_def split: prod.splits bool.splits sum.splits)

lemma run_items_event:
  "run_items env dl its ev w = (res, ev', w') \<Longrightarrow>
   ev' = ev \<or> (\<exists>fs. ev' = extend_features ev fs)"
  by (auto simp: run_items_def dest: emit_result_event split: prod.splits sum.splits)

lemma handler_try_event:
  "handler_try env ev w = (res, ev', w') \<Longrightarrow>
   ev' = ev \<or> (\<exists>fs. ev' = extend_features ev fs)"
  unfolding handler_try_def Let_def
  by (auto split: sum.splits option.splits list.splits if_splits prod.splits
           dest: run_items_event)

lemma handler_try_errors:
  "handler_try env ev w = (res, ev', w') \<Longrightarrow> errors ev' = errors ev"
  by (auto dest!: handler_try_event simp: extend_features_def)

lemma handler_try_features:
  "handler_try env ev w = (res, ev', w') \<Longrightarrow> prefix (features_of ev) (features_of ev')"
  by (auto dest!: handler_try_event simp: extend_features_def features_of_def)

lemma asset_loop_world:
  "\<exists>w' al'. asset_loop env iid signed (w, al) = (w', al')"
  by (cases "asset_loop env iid signed (w, al)") simp

lemma process_item_id:
  "process_item env dl it w = (Inr f, w') \<Longrightarrow> f_id f = item_id it"
proof (cases dl)
  case True
  assume "process_item env dl it w = (Inr f, w')"
  with True show ?thesis
    by (auto simp: to_dict_def process_item_def download_and_update_item_def Let_def
             split: sum.splits prod.splits)
next
  case False
  assume "process_item env dl it w = (Inr f, w')"
  with False show ?thesis
    using process_item_metadata_only [of env it w]
    by (auto simp: to_dict_def)
qed

lemma process_items_ids:
  "process_items env dl its w = (Inr fs, w') \<Longrightarrow> map f_id fs = map item_id its"
proof (induction its arbitrary: w fs)
  case Nil
  then show ?case by simp
next
  case (Cons it its)
  from Cons.prems obtain f w1 fs' where
    f: "process_item env dl it w = (Inr f, w1)" and
    r: "process_items env dl its w1 = (Inr fs', w')" and
    e: "fs = f # fs'"
    by (auto split: prod.splits sum.splits)
  from process_item_id [OF f] Cons.IH [OF r] e show ?case by simp
qed

text \<open>
  Claim C8. When the body of the handler raises \<open>e\<close>, the handler raises that same \<open>e\<close>,
  having appended one record \<^verbatim>\<open>{task, error, timestamp}\<close> to \<^verbatim>\<open>event["errors"]\<close> (an absent
  sequence counting as empty) and nothing else; it does not return a response. When the
  body returns a response, the errors are left as they were.
\<close>

theorem fatal_path_records_and_reraises:
  "(handler_try env event w = (Inl e, ev1, w1) \<longrightarrow>
      lambda_handler env event w =
        (Inl e,
         ev1\<lparr>errors := Some (errors_of event @
            [\<lparr>task = ''planetary-computer-to-s3'', error = str_exn e,
              timestamp = utcnow env (trace (emit (LogHandlerError e) w1))\<rparr>])\<rparr>,
         emit (LogHandlerError e) w1)) \<and>
   (handler_try env event w = (Inr r, ev1, w1) \<longrightarrow>
      lambda_handler env event w = (Inr r, ev1, w1) \<and> errors ev1 = errors event)"
proof (intro conjI impI)
  assume h: "handler_try env event w = (Inl e, ev1, w1)"
  from handler_try_errors [OF h] have "errors_of ev1 = errors_of event"
    by (simp add: errors_of_def)
  with h show "lambda_handler env event w =
        (Inl e,
         ev1\<lparr>errors := Some (errors_of event @
            [\<lparr>task = ''planetary-computer-to-s3'', error = str_exn e,
              timestamp = utcnow env (trace (emit (LogHandlerError e) w1))\<rparr>])\<rparr>,
         emit (LogHandlerError e) w1)"
    by (simp add: lambda_handler_def Let_def error_entry_def errors_of_def)
next
  assume h: "handler_try env event w = (Inr r, ev1, w1)"
  then show "lambda_handler env event w = (Inr r, ev1, w1)"
    by (simp add: lambda_handler_def)
next
  assume h: "handler_try env event w = (Inr r, ev1, w1)"
  then show "errors ev1 = errors event"
    by (rule handler_try_errors)
qed

theorem fatal_path_records_and_reraises_witness:
  "lambda_handler example_env (example_event\<lparr>process := Some []\<rparr>) example_world =
     (Inl (IndexError ''list index out of range''),
      example_event\<lparr>process := Some [],
        errors := Some
          [\<lparr>task = ''planetary-computer-to-s3'', error = ''list index out of range'',
            timestamp = ''2024-06-02T10:00:00''\<rparr>]\<rparr>,
      emit (LogHandlerError (IndexError ''list index out of range'')) example_world)"
proof -
  have h: "handler_try example_env (example_event\<lparr>process := Some []\<rparr>) example_world =
      (Inl (IndexError ''list index out of range''), example_event\<lparr>process := Some []\<rparr>,
       example_world)"
    by (simp add: handler_try_def example_env_def)
  have e: "errors_of (example_event\<lparr>process := Some []\<rparr>) = []"
    and u: "utcnow example_env = (\<lambda>tr. ''2024-06-02T10:00:00'')"
    by (simp_all add: errors_of_def example_event_def example_env_def)
  from fatal_path_records_and_reraises
    [of example_env "example_event\<lparr>process := Some []\<rparr>" example_world
        "IndexError ''list index out of range''" "example_event\<lparr>process := Some []\<rparr>"
        example_world] h
  show ?thesis
    by (simp add: e u)
qed

text \<open>The metadata-only loop over the items raises nothing.\<close>

lemma process_items_metadata_only:
  "\<exists>fs w'. process_items env False its w = (Inr fs, w')"
proof (induction its arbitrary: w)
  case Nil
  show ?case by simp
next
  case (Cons it its)
  from Cons [of "w\<lparr>store := relabel (links it) (store w)\<rparr>"] show ?case
    by (auto simp: process_item_metadata_only)
qed

text \<open>
  Claim C7. Whatever the outcome, the features already in the incoming event are a prefix
  of the features of the event as the handler leaves it: none is overwritten and the
  sequence does not shrink. When the handler returns, the features are the old ones
  followed by one feature per item the catalog returned, in the catalog's order.
\<close>

theorem features_appended_in_order:
  "lambda_handler env event w = (res, event', w') \<Longrightarrow>
   prefix (features_of event) (features_of event') \<and>
   (\<forall>r. res = Inr r \<longrightarrow>
      (\<exists>pc others its w1 fs w2.
         process event = Some (pc # others) \<and>
         query_planetary_computer env (py_str (cfg_tile (get_task_config pc)))
            (py_str (cfg_date (get_task_config pc)))
            (item_limit (get_task_config pc)) (download_flag (get_task_config pc)) w
           = (Inr its, w1) \<and>
         process_items env (download_flag (get_task_config pc)) its w1 = (Inr fs, w2) \<and>
         features event' = Some (features_of event @ fs) \<and>
         map f_id fs = map item_id its))"
proof (intro conjI allI impI)
  assume l: "lambda_handler env event w = (res, event', w')"
  obtain res0 ev0 w0 where h: "handler_try env event w = (res0, ev0, w0)"
    by (cases "handler_try env event w") auto
  from l h have "features_of event' = features_of ev0"
    by (auto simp: lambda_handler_def Let_def features_of_def split: sum.splits)
  with handler_try_features [OF h] show "prefix (features_of event) (features_of event')"
    by simp
next
  fix r
  assume l: "lambda_handler env event w = (res, event', w')" and r: "res = Inr r"
  then have "handler_try env event w = (Inr r, event', w')"
    by (simp add: lambda_handler_Inr)
  from handler_try_Inr [OF this] obtain pc others its w1 fs w2 where
    p: "process event = Some (pc # others)" and
    q: "query_planetary_computer env (py_str (cfg_tile (get_task_config pc)))
            (py_str (cfg_date (get_task_config pc)))
            (item_limit (get_task_config pc)) (download_flag (get_task_config pc)) w
           = (Inr its, w1)" and
    i: "process_items env (download_flag (get_task_config pc)) its w1 = (Inr fs, w2)" and
    e: "event' = extend_features event fs"
    by blast
  from e have "features event' = Some (features_of event @ fs)"
    by (simp add: extend_features_def features_of_def)
  with p q i process_items_ids [OF i]
  show "\<exists>pc others its w1 fs w2.
         process event = Some (pc # others) \<and>
         query_planetary_computer env (py_str (cfg_tile (get_task_config pc)))
            (py_str (cfg_date (get_task_config pc)))
            (item_limit (get_task_config pc)) (download_flag (get_task_config pc)) w
           = (Inr its, w1) \<and>
         process_items env (download_flag (get_task_config pc)) its w1 = (Inr fs, w2) \<and>
         features event' = Some (features_of event @ fs) \<and>
         map f_id fs = map item_id its"
    by blast
qed

theorem features_appended_in_order_witness:
  "\<exists>r event' w'.
     lambda_handler catalog_env event_with_features example_world = (Inr r, event', w') \<and>
     prefix old_features (features_of event') \<and>
     map f_id (features_of event') = [''old-1'', ''old-2'', ''B'', ''A'', ''C'']"
proof -
  let ?pc = "\<lparr>tasks = Some [(''planetary-computer-to-s3'', example_config)]\<rparr>"
  let ?wq = "example_world\<lparr>trace := trace example_world @
        [OpenClient,
         Search ''sentinel-2-l2a'' ''2024-06-01T00:00:00/2024-06-02T00:00:00'' ''33UUP'' 5]\<rparr>"
  have e: "process event_with_features = Some [?pc]"
    "features_of event_with_features = old_features"
    by (simp_all add: event_with_features_def example_event_def features_of_def)
  have j: "json_dumps catalog_env p = Inr ''{}''" for p
    by (simp add: catalog_env_def example_env_def)
  have q: "query_planetary_computer catalog_env ''33UUP'' ''2024-06-01'' 5 False example_world =
      (Inr catalog_items, ?wq)"
    by (rule example_date_query)
       (simp_all add: catalog_env_def example_env_def catalog_items_def)
  then have q': "query_planetary_computer catalog_env (py_str (cfg_tile (get_task_config ?pc)))
       (py_str (cfg_date (get_task_config ?pc)))
       (item_limit (get_task_config ?pc)) (download_flag (get_task_config ?pc)) example_world
      = (Inr catalog_items, ?wq)"
    by (simp add: example_config_of_event example_config_fields)
  obtain fs w2 where
    "process_items catalog_env False catalog_items ?wq = (Inr fs, w2)"
    using process_items_metadata_only by blast
  then have i: "process_items catalog_env (download_flag (get_task_config ?pc)) catalog_items ?wq
      = (Inr fs, w2)"
    by (simp add: example_config_of_event example_config_fields)
  have v: "\<not> falsy (cfg_tile (get_task_config ?pc))" "\<not> falsy (cfg_date (get_task_config ?pc))"
    by (simp_all add: example_config_of_event example_config_fields)
  from handler_try_items [OF j e(1) v q' i] emit_result_full [OF j, of _ w2]
  have l: "lambda_handler catalog_env event_with_features example_world =
      (Inr (Full (extend_features event_with_features fs)),
       extend_features event_with_features fs, w2)"
    by (simp add: lambda_handler_def)
  from features_appended_in_order [OF l]
  have p: "prefix (features_of event_with_features)
      (features_of (extend_features event_with_features fs))"
    by (rule conjunct1)
  from features_appended_in_order [OF l] obtain pc others its w1 fs' w2' where
    a: "process event_with_features = Some (pc # others)" and
    b: "query_planetary_computer catalog_env (py_str (cfg_tile (get_task_config pc)))
            (py_str (cfg_date (get_task_config pc)))
            (item_limit (get_task_config pc)) (download_flag (get_task_config pc)) example_world
           = (Inr its, w1)" and
    c: "features (extend_features event_with_features fs)
          = Some (features_of event_with_features @ fs')" and
    d: "map f_id fs' = map item_id its"
    by blast
  from a e(1) have "pc = ?pc"
    by simp
  with b q' have "its = catalog_items"
    by simp
  with d have "map f_id fs' = [''B'', ''A'', ''C'']"
    by (simp add: catalog_items_def)
  with c e(2) have
    "map f_id (features_of (extend_features event_with_features fs))
       = [''old-1'', ''old-2'', ''B'', ''A'', ''C'']"
    by (simp add: features_of_def old_features_def)
  with l p e(2) show ?thesis
    by auto
qed
section \<open>Claims about validation and the catalog query\<close>

lemma trace_emit [simp]: "trace (emit c w) = trace w @ [c]"
  by (simp add: emit_def)

lemma store_emit [simp]: "store (emit c w) = store w"
  by (simp add: emit_def)

lemma query_try_trace:
  "query_try env t d mx dl w = (res, w') \<Longrightarrow> prefix (trace w @ [OpenClient]) (trace w')"
  by (auto simp: query_try_def Let_def split: option.splits sum.splits if_splits)

lemma query_trace:
  "query_planetary_computer env t d mx dl w = (res, w') \<Longrightarrow>
   prefix (trace w @ [OpenClient]) (trace w')"
  by (auto simp: query_planetary_computer_def prefix_def
           dest!: query_try_trace split: prod.splits sum.splits)

lemma download_try_trace:
  "download_try env iid k a mt (w, al) = (res, w') \<Longrightarrow> prefix (trace w) (trace w')"
  by (auto simp: download_try_def Let_def split: sum.splits option.splits)

lemma process_asset_trace:
  "process_asset env iid ka (w, al) = (w', al') \<Longrightarrow> prefix (trace w) (trace w')"
  by (cases ka)
     (auto simp: process_asset_def prefix_def dest!: download_try_trace
           split: option.splits if_splits prod.splits sum.splits)

lemma asset_loop_trace:
  "asset_loop env iid signed (w, al) = (w', al') \<Longrightarrow> prefix (trace w) (trace w')"
proof (induction signed arbitrary: w al)
  case Nil
  then show ?case by simp
next
  case (Cons ka signed)
  obtain w1 al1 where s: "process_asset env iid ka (w, al) = (w1, al1)"
    by (cases "process_asset env iid ka (w, al)") auto
  with Cons.prems have "asset_loop env iid signed (w1, al1) = (w', al')" by simp
  from Cons.IH [OF this] process_asset_trace [OF s] show ?case
    by (rule prefix_order.trans [rotated])
qed

lemma download_item_trace:
  "download_and_update_item env it w = (res, w') \<Longrightarrow> prefix (trace w) (trace w')"
  by (auto simp: download_and_update_item_def Let_def prefix_def
           dest!: asset_loop_trace split: sum.splits prod.splits)

lemma process_item_trace:
  "process_item env dl it w = (res, w') \<Longrightarrow> prefix (trace w) (trace w')"
  by (cases dl)
     (auto simp: process_item_def dest!: download_item_trace split: sum.splits prod.splits)

lemma process_items_trace:
  "process_items env dl its w = (res, w') \<Longrightarrow> prefix (trace w) (trace w')"
proof (induction its arbitrary: w res w')
  case Nil
  then show ?case by simp
next
  case (Cons it its)
  obtain r1 w1 where s: "process_item env dl it w = (r1, w1)"
    by (cases "process_item env dl it w") auto
  show ?case
  proof (cases r1)
    case (Inl e)
    with s Cons.prems process_item_trace [OF s] show ?thesis by simp
  next
    case (Inr f)
    obtain r2 w2 where t: "process_items env dl its w1 = (r2, w2)"
      by (cases "process_items env dl its w1") auto
    with s Inr Cons.prems have "w' = w2" by (auto split: sum.splits)
    with Cons.IH [OF t] process_item_trace [OF s] show ?thesis
      by (auto elim: prefix_order.trans)
  qed
qed

lemma emit_result_trace:
  "emit_result env p w = (res, p', w') \<Longrightarrow> prefix (trace w) (trace w')"
  by (auto simp: emit_result_def should_upload_to_s3_def upload_payload_to_s3_def
                 upload_try_def Let_def prefix_def
           split: prod.splits bool.splits sum.splits option.splits if_splits)

lemma run_items_trace:
  "run_items env dl its ev w = (res, ev', w') \<Longrightarrow> prefix (trace w) (trace w')"
  by (auto simp: run_items_def dest!: process_items_trace emit_result_trace
           split: prod.splits sum.splits elim: prefix_order.trans)

lemma handler_try_valid:
  assumes "json_dumps env event = Inr s" and "process event = Some (pc # others)"
    and "cfg_tile (get_task_config pc) = Some t" and "cfg_date (get_task_config pc) = Some d"
    and "t \<noteq> []" and "d \<noteq> []"
  shows "handler_try env event w =
     (case query_planetary_computer env t d (item_limit (get_task_config pc))
             (download_flag (get_task_config pc)) w of
        (Inl e, w1) \<Rightarrow> (Inl e, event, w1)
      | (Inr its, w1) \<Rightarrow> run_items env (download_flag (get_task_config pc)) its event w1)"
  using assms by (simp add: handler_try_def Let_def)

lemma handler_try_valid_trace:
  assumes "json_dumps env event = Inr s" and "process event = Some (pc # others)"
    and "cfg_tile (get_task_config pc) = Some t" and "cfg_date (get_task_config pc) = Some d"
    and "t \<noteq> []" and "d \<noteq> []"
    and "handler_try env event w = (res, ev', w')"
  shows "prefix (trace w @ [OpenClient]) (trace w')"
proof -
  let ?tc = "get_task_config pc"
  obtain r1 w1 where q: "query_planetary_computer env t d (item_limit ?tc) (download_flag ?tc) w
      = (r1, w1)"
    by (cases "query_planetary_computer env t d (item_limit ?tc) (download_flag ?tc) w") auto
  note p = query_trace [OF q]
  show ?thesis
  proof (cases r1)
    case (Inl e)
    with q assms(7) handler_try_valid [OF assms(1-6), of w] have "w' = w1" by simp
    with p show ?thesis by simp
  next
    case (Inr its)
    with q assms(7) handler_try_valid [OF assms(1-6), of w]
    have "run_items env (download_flag ?tc) its event w1 = (res, ev', w')" by simp
    from run_items_trace [OF this] p show ?thesis
      by (rule prefix_order.trans [rotated])
  qed
qed

lemma lambda_handler_trace:
  "handler_try env event w = (res, ev', w') \<Longrightarrow>
   prefix (trace w') (trace (snd (snd (lambda_handler env event w))))"
  by (cases res) (simp_all add: lambda_handler_def Let_def)

text \<open>
  Claim C3. For an event that has a first \<^verbatim>\<open>process\<close> entry (and that can be serialised
  for the opening log line): when tile or date is absent or empty the handler raises the
  configuration error at once, before any collaborator is called; when both are present
  and non-empty, validation passes and \<^verbatim>\<open>query_planetary_computer\<close> is called with them, its
  first act being to open the catalog client. So the configuration error of the
  validation step is raised exactly in the first case.
\<close>

theorem validation_error_exactly_when_missing:
  assumes "json_dumps env event = Inr s" and "process event = Some (pc # others)"
  shows
   "(falsy (cfg_tile (get_task_config pc)) \<or> falsy (cfg_date (get_task_config pc)) \<longrightarrow>
       lambda_handler env event w =
         (Inl missing_tile_or_date,
          event\<lparr>errors := Some (errors_of event @
             [error_entry env missing_tile_or_date (emit (LogHandlerError missing_tile_or_date) w)])\<rparr>,
          emit (LogHandlerError missing_tile_or_date) w)) \<and>
    (\<not> falsy (cfg_tile (get_task_config pc)) \<and> \<not> falsy (cfg_date (get_task_config pc)) \<longrightarrow>
       (\<exists>t d. cfg_tile (get_task_config pc) = Some t \<and> cfg_date (get_task_config pc) = Some d \<and>
          handler_try env event w =
            (case query_planetary_computer env t d (item_limit (get_task_config pc))
                    (download_flag (get_task_config pc)) w of
               (Inl e, w1) \<Rightarrow> (Inl e, event, w1)
             | (Inr its, w1) \<Rightarrow>
                 run_items env (download_flag (get_task_config pc)) its event w1)) \<and>
       prefix (trace w @ [OpenClient]) (trace (snd (snd (lambda_handler env event w))))) \<and>
    ((fst (lambda_handler env event w) = Inl missing_tile_or_date \<and>
      trace (snd (snd (lambda_handler env event w))) =
        trace w @ [LogHandlerError missing_tile_or_date])
     \<longleftrightarrow> falsy (cfg_tile (get_task_config pc)) \<or> falsy (cfg_date (get_task_config pc)))"
proof -
  let ?tc = "get_task_config pc"
  let ?bad = "falsy (cfg_tile ?tc) \<or> falsy (cfg_date ?tc)"
  have A: "lambda_handler env event w =
         (Inl missing_tile_or_date,
          event\<lparr>errors := Some (errors_of event @
             [error_entry env missing_tile_or_date (emit (LogHandlerError missing_tile_or_date) w)])\<rparr>,
          emit (LogHandlerError missing_tile_or_date) w)" if ?bad
  proof -
    from that assms have "handler_try env event w = (Inl missing_tile_or_date, event, w)"
      by (auto simp: handler_try_def Let_def)
    then show ?thesis
      by (simp add: lambda_handler_def Let_def errors_of_def)
  qed
  have B: "(\<exists>t d. cfg_tile ?tc = Some t \<and> cfg_date ?tc = Some d \<and>
          handler_try env event w =
            (case query_planetary_computer env t d (item_limit ?tc) (download_flag ?tc) w of
               (Inl e, w1) \<Rightarrow> (Inl e, event, w1)
             | (Inr its, w1) \<Rightarrow> run_items env (download_flag ?tc) its event w1)) \<and>
       prefix (trace w @ [OpenClient]) (trace (snd (snd (lambda_handler env event w))))"
    if "\<not> ?bad"
  proof -
    from that obtain t d where
      td: "cfg_tile ?tc = Some t" "cfg_date ?tc = Some d" "t \<noteq> []" "d \<noteq> []"
      by (cases "cfg_tile ?tc"; cases "cfg_date ?tc") auto
    obtain res ev' w' where h: "handler_try env event w = (res, ev', w')"
      by (cases "handler_try env event w") auto
    from handler_try_valid_trace [OF assms td h] lambda_handler_trace [OF h]
    have "prefix (trace w @ [OpenClient]) (trace (snd (snd (lambda_handler env event w))))"
      by (rule prefix_order.trans)
    with handler_try_valid [OF assms td, of w] td show ?thesis by blast
  qed
  have C: "\<not> (trace (snd (snd (lambda_handler env event w))) =
        trace w @ [LogHandlerError missing_tile_or_date])" if "\<not> ?bad"
  proof
    assume "trace (snd (snd (lambda_handler env event w))) =
        trace w @ [LogHandlerError missing_tile_or_date]"
    with B [OF that] have "prefix (trace w @ [OpenClient])
        (trace w @ [LogHandlerError missing_tile_or_date])"
      by simp
    then show False by simp
  qed
  from A B C show ?thesis
    by (cases ?bad) auto
qed

theorem validation_error_exactly_when_missing_witness:
  "fst (lambda_handler example_env event_without_date example_world) = Inl missing_tile_or_date \<and>
   prefix (trace example_world @ [OpenClient])
     (trace (snd (snd (lambda_handler example_env example_event example_world))))"
proof -
  let ?pc = "\<lparr>tasks = Some [(''planetary-computer-to-s3'', example_config\<lparr>cfg_date := None\<rparr>)]\<rparr>"
  have j: "json_dumps example_env event_without_date = Inr ''{}''"
    and p: "process event_without_date = Some [?pc]"
    and c: "get_task_config ?pc = example_config\<lparr>cfg_date := None\<rparr>"
    by (simp_all add: example_env_def event_without_date_def get_task_config_def TASK_NAME_def)
  from validation_error_exactly_when_missing [OF j p, of example_world] c
  have a: "fst (lambda_handler example_env event_without_date example_world)
      = Inl missing_tile_or_date"
    by simp
  have j': "json_dumps example_env example_event = Inr ''{}''"
    by (simp add: example_env_def)
  from validation_error_exactly_when_missing
    [OF j' example_config_of_event(1), of example_world]
  have "prefix (trace example_world @ [OpenClient])
     (trace (snd (snd (lambda_handler example_env example_event example_world))))"
    by (simp add: example_config_of_event(2) example_config_fields)
  with a show ?thesis by simp
qed

section \<open>Claims about the date of the query\<close>

lemma digit_val_cases:
  "digit_val c = Some n \<Longrightarrow> n < 10 \<and> digit n = c \<and> c \<noteq> CHR ''/''"
  by (auto simp: digit_val_def digit_def split: if_splits)

lemma digit_mod: "digit n = digit (n mod 10)"
  by (simp add: digit_def)

lemma base10:
  fixes k u :: nat
  assumes "u < 10"
  shows "(10 * k + u) div 10 = k" and "(10 * k + u) mod 10 = u"
  using assms by simp_all

lemma pad2_number:
  assumes "number [a, b] 0 = Some n"
  shows "pad2 n = [a, b]"
proof -
  from assms obtain x y where x: "digit_val a = Some x" and y: "digit_val b = Some y"
    and n: "n = 10 * x + y"
    by (auto split: option.splits)
  from digit_val_cases [OF x] digit_val_cases [OF y]
  have b: "x < 10" "y < 10" and d: "digit x = a" "digit y = b" by simp_all
  from b have "n div 10 = x" "n mod 10 = y" unfolding n by (simp_all add: base10)
  then have "digit (n div 10) = digit x" "digit n = digit y"
    using digit_mod [of n] by simp_all
  with d show ?thesis by (simp add: pad2_def)
qed

lemma pad4_number:
  assumes "number [a, b, c, d] 0 = Some n"
  shows "pad4 n = [a, b, c, d]"
proof -
  from assms obtain x y z u where x: "digit_val a = Some x" and y: "digit_val b = Some y"
    and z: "digit_val c = Some z" and u: "digit_val d = Some u"
    and n: "n = 10 * (10 * (10 * x + y) + z) + u"
    by (auto split: option.splits)
  from digit_val_cases [OF x] digit_val_cases [OF y] digit_val_cases [OF z] digit_val_cases [OF u]
  have b: "x < 10" "y < 10" "z < 10" "u < 10"
    and e: "digit x = a" "digit y = b" "digit z = c" "digit u = d" by simp_all
  have n0: "n mod 10 = u" and n1: "n div 10 = 10 * (10 * x + y) + z"
    unfolding n using b(4) by (rule base10(2), rule base10(1))
  have n2: "n div 100 = 10 * x + y"
  proof -
    have "n div 100 = n div (10 * 10)" by simp
    also have "\<dots> = n div 10 div 10" by (rule div_mult2_eq)
    also have "\<dots> = 10 * x + y" unfolding n1 using b(3) by (rule base10(1))
    finally show ?thesis .
  qed
  have n3: "n div 1000 = x"
  proof -
    have "n div 1000 = n div (100 * 10)" by simp
    also have "\<dots> = n div 100 div 10" by (rule div_mult2_eq)
    also have "\<dots> = x" unfolding n2 using b(2) by (rule base10(1))
    finally show ?thesis .
  qed
  have "digit n = digit u" using digit_mod [of n] n0 by simp
  moreover have "digit (n div 10) = digit z"
    using digit_mod [of "n div 10"] base10(2) [OF b(3), of "10 * x + y"] n1 by simp
  moreover have "digit (n div 100) = digit y"
    using digit_mod [of "n div 100"] base10(2) [OF b(2), of x] n2 by simp
  moreover have "digit (n div 1000) = digit x" using n3 by simp
  ultimately show ?thesis using e by (simp add: pad4_def)
qed

lemma number_no_slash:
  "number cs n = Some k \<Longrightarrow> CHR ''/'' \<notin> set cs"
  by (induction cs arbitrary: n) (auto split: option.splits dest: digit_val_cases)

lemma contains_char: "contains [c] s = (c \<in> set s)"
  by (induction s) auto

lemma parse_date_form:
  assumes "parse_date s = Some (y, m, d)"
  shows "\<not> contains ''/'' s \<and> pad4 y @ ''-'' @ pad2 m @ ''-'' @ pad2 d = s \<and> y < 10000"
proof -
  from assms obtain y1 y2 y3 y4 m1 m2 d1 d2 where
    s: "s = [y1, y2, y3, y4, CHR ''-'', m1, m2, CHR ''-'', d1, d2]"
    and ny: "number [y1, y2, y3, y4] 0 = Some y"
    and nm: "number [m1, m2] 0 = Some m"
    and nd: "number [d1, d2] 0 = Some d"
    by (cases s rule: parse_date.cases) (auto split: if_splits option.splits)
  from number_no_slash [OF ny] number_no_slash [OF nm] number_no_slash [OF nd]
  have "\<not> contains ''/'' s"
    unfolding s contains_char by simp
  moreover from ny have "y < 10000"
    by (auto split: option.splits dest!: digit_val_cases)
  ultimately show ?thesis
    using pad4_number [OF ny] pad2_number [OF nm] pad2_number [OF nd] s by simp
qed

lemma datetime_query_valid:
  assumes p: "parse_date date = Some (y, m, d)"
    and v: "1 \<le> y" "1 \<le> m" "m \<le> 12" "1 \<le> d" "d \<le> days_in_month y m"
    and n: "add_one_day \<lparr>dt_year = y, dt_month = m, dt_day = d, dt_clock = ''00:00:00''\<rparr> = Inr nxt"
  shows "datetime_query env date = Inr (date @ ''T00:00:00/'' @ isoformat nxt)"
proof -
  from parse_date_form [OF p]
  have c: "\<not> contains ''/'' date" and r: "pad4 y @ ''-'' @ pad2 m @ ''-'' @ pad2 d = date"
    by simp_all
  from p v have f: "fromisoformat env date =
      Inr \<lparr>dt_year = y, dt_month = m, dt_day = d, dt_clock = ''00:00:00''\<rparr>"
    by (simp add: fromisoformat_def)
  have "isoformat \<lparr>dt_year = y, dt_month = m, dt_day = d, dt_clock = ''00:00:00''\<rparr>
      = date @ ''T00:00:00''"
    using r by (simp add: isoformat_def)
  with c f n show ?thesis
    by (simp add: datetime_query_def)
qed

lemma datetime_query_invalid:
  assumes p: "parse_date date = Some (y, m, d)"
    and v: "\<not> (1 \<le> y \<and> 1 \<le> m \<and> m \<le> 12 \<and> 1 \<le> d \<and> d \<le> days_in_month y m)"
  shows "\<exists>msg. datetime_query env date = Inl (ValueError msg)"
proof -
  from parse_date_form [OF p] have c: "\<not> contains ''/'' date" by simp
  from p v have "\<exists>msg. fromisoformat env date = Inl (ValueError msg)"
    by (auto simp: fromisoformat_def)
  with c show ?thesis
    by (auto simp: datetime_query_def)
qed

lemma add_one_day_defined:
  assumes "y < 10000" "m \<le> 12" "d \<le> days_in_month y m" "(y, m, d) \<noteq> (9999, 12, 31)"
  shows "\<exists>nxt. add_one_day \<lparr>dt_year = y, dt_month = m, dt_day = d, dt_clock = c\<rparr> = Inr nxt"
proof (cases "d < days_in_month y m \<or> m < 12 \<or> y < 9999")
  case True
  then show ?thesis by (auto simp: add_one_day_def)
next
  case False
  with assms have "m = 12" "y = 9999" "d = days_in_month y m" by simp_all
  with assms(4) show ?thesis by (simp add: days_in_month_def)
qed

lemma query_with_datetime:
  assumes "datetime_query env date = Inr dq" and "client_open env (trace w) = None"
  shows "prefix (trace w @ [OpenClient, Search (COLLECTION env) dq tile max_items])
           (trace (snd (query_planetary_computer env tile date max_items dl w)))"
  using assms
  by (auto simp: query_planetary_computer_def query_try_def Let_def split: sum.splits)

lemma query_without_datetime:
  assumes "datetime_query env date = Inl e" and "client_open env (trace w) = None"
  shows "query_planetary_computer env tile date max_items dl w =
           (Inl e, emit (LogQueryError e) (emit OpenClient w))"
  using assms
  by (simp add: query_planetary_computer_def query_try_def Let_def)

text \<open>
  Claim C4, as stated, fails: not every date without \<^verbatim>\<open>"/"\<close> is converted to a range.
  \<^verbatim>\<open>"2024-02-30"\<close> makes \<^verbatim>\<open>datetime.fromisoformat\<close> raise, the query step raises with it and
  no search is made; \<^verbatim>\<open>"9999-12-31"\<close> is a calendar date whose next day overflows.
\<close>

theorem invalid_date_not_converted:
  "\<not> contains ''/'' ''2024-02-30'' \<and>
   query_planetary_computer example_env ''33UUP'' ''2024-02-30'' 5 False example_world =
     (Inl (ValueError ''day is out of range for month''),
      example_world\<lparr>trace :=
        [OpenClient, LogQueryError (ValueError ''day is out of range for month'')]\<rparr>) \<and>
   datetime_query example_env ''9999-12-31'' = Inl (OverflowError ''date value out of range'')"
proof -
  have a: "datetime_query example_env ''2024-02-30'' =
      Inl (ValueError ''day is out of range for month'')"
    by (simp add: datetime_query_def fromisoformat_def digit_val_def days_in_month_def
          is_leap_def)
  have b: "datetime_query example_env ''9999-12-31'' =
      Inl (OverflowError ''date value out of range'')"
    by (simp add: datetime_query_def fromisoformat_def digit_val_def days_in_month_def
          is_leap_def add_one_day_def)
  have c: "client_open example_env (trace example_world) = None"
    by (simp add: example_env_def)
  from query_without_datetime [OF a c] b show ?thesis
    by (simp add: emit_def example_world_def)
qed

text \<open>
  Claim C4, amended. A date that contains \<^verbatim>\<open>"/"\<close> is the search's \<^verbatim>\<open>datetime\<close> as it is.
  A date of the form \<^verbatim>\<open>YYYY-MM-DD\<close> that is a calendar date other than 9999-12-31 becomes
  \<^verbatim>\<open>YYYY-MM-DDT00:00:00/\<close> followed by the next calendar day, also at \<^verbatim>\<open>T00:00:00\<close>. A string
  of that form which is no calendar date raises \<^verbatim>\<open>ValueError\<close>. Whatever \<^verbatim>\<open>datetime\<close> results
  is what the search receives; when none results, the query raises and no search is made.
\<close>

theorem date_normalisation:
  "(contains ''/'' date \<longrightarrow> datetime_query env date = Inr date) \<and>
   (parse_date date = Some (y, m, d) \<and> 1 \<le> y \<and> 1 \<le> m \<and> m \<le> 12 \<and> 1 \<le> d \<and>
    d \<le> days_in_month y m \<and> (y, m, d) \<noteq> (9999, 12, 31) \<longrightarrow>
      (\<exists>nxt. add_one_day \<lparr>dt_year = y, dt_month = m, dt_day = d, dt_clock = ''00:00:00''\<rparr>
                = Inr nxt \<and>
             datetime_query env date = Inr (date @ ''T00:00:00/'' @ isoformat nxt))) \<and>
   (parse_date date = Some (y, m, d) \<and>
    \<not> (1 \<le> y \<and> 1 \<le> m \<and> m \<le> 12 \<and> 1 \<le> d \<and> d \<le> days_in_month y m) \<longrightarrow>
      (\<exists>msg. datetime_query env date = Inl (ValueError msg))) \<and>
   (datetime_query env date = Inr dq \<and> client_open env (trace w) = None \<longrightarrow>
      prefix (trace w @ [OpenClient, Search (COLLECTION env) dq tile max_items])
        (trace (snd (query_planetary_computer env tile date max_items dl w)))) \<and>
   (datetime_query env date = Inl e \<and> client_open env (trace w) = None \<longrightarrow>
      query_planetary_computer env tile date max_items dl w =
        (Inl e, emit (LogQueryError e) (emit OpenClient w)))"
proof (intro conjI impI)
  assume "contains ''/'' date"
  then show "datetime_query env date = Inr date"
    by (simp add: datetime_query_def)
next
  assume h: "parse_date date = Some (y, m, d) \<and> 1 \<le> y \<and> 1 \<le> m \<and> m \<le> 12 \<and> 1 \<le> d \<and>
    d \<le> days_in_month y m \<and> (y, m, d) \<noteq> (9999, 12, 31)"
  then have p: "parse_date date = Some (y, m, d)" by simp
  from parse_date_form [OF p] have "y < 10000" by simp
  with h obtain nxt where
    n: "add_one_day \<lparr>dt_year = y, dt_month = m, dt_day = d, dt_clock = ''00:00:00''\<rparr> = Inr nxt"
    using add_one_day_defined [of y m d "''00:00:00''"] by blast
  from h have "1 \<le> y" "1 \<le> m" "m \<le> 12" "1 \<le> d" "d \<le> days_in_month y m" by simp_all
  from datetime_query_valid [OF p this n] n
  show "\<exists>nxt. add_one_day \<lparr>dt_year = y, dt_month = m, dt_day = d, dt_clock = ''00:00:00''\<rparr>
                = Inr nxt \<and>
             datetime_query env date = Inr (date @ ''T00:00:00/'' @ isoformat nxt)"
    by blast
next
  assume "parse_date date = Some (y, m, d) \<and>
    \<not> (1 \<le> y \<and> 1 \<le> m \<and> m \<le> 12 \<and> 1 \<le> d \<and> d \<le> days_in_month y m)"
  then show "\<exists>msg. datetime_query env date = Inl (ValueError msg)"
    using datetime_query_invalid [of date y m d env] by blast
next
  assume "datetime_query env date = Inr dq \<and> client_open env (trace w) = None"
  then show "prefix (trace w @ [OpenClient, Search (COLLECTION env) dq tile max_items])
        (trace (snd (query_planetary_computer env tile date max_items dl w)))"
    using query_with_datetime [of env date dq w tile max_items dl] by blast
next
  assume "datetime_query env date = Inl e \<and> client_open env (trace w) = None"
  then show "query_planetary_computer env tile date max_items dl w =
        (Inl e, emit (LogQueryError e) (emit OpenClient w))"
    using query_without_datetime [of env date e w tile max_items dl] by blast
qed

theorem date_normalisation_witness:
  "datetime_query example_env ''2024-06-01/2024-06-03'' = Inr ''2024-06-01/2024-06-03'' \<and>
   datetime_query example_env ''2024-12-31'' = Inr ''2024-12-31T00:00:00/2025-01-01T00:00:00'' \<and>
   prefix [OpenClient, Search ''sentinel-2-l2a'' ''2024-06-01/2024-06-03'' ''33UUP'' 5]
     (trace (snd (query_planetary_computer example_env ''33UUP'' ''2024-06-01/2024-06-03'' 5
        False example_world)))"
proof -
  have c: "contains ''/'' ''2024-06-01/2024-06-03''"
    by (simp add: contains_char)
  note t = date_normalisation
    [of "''2024-06-01/2024-06-03''" example_env 2024 12 31
        "''2024-06-01/2024-06-03''" example_world "''33UUP''" 5 False]
  from t c have a: "datetime_query example_env ''2024-06-01/2024-06-03''
      = Inr ''2024-06-01/2024-06-03''"
    by blast
  have o: "client_open example_env (trace example_world) = None"
    and k: "COLLECTION example_env = ''sentinel-2-l2a''"
    and e: "trace example_world = []"
    by (simp_all add: example_env_def example_world_def)
  from t a o have "prefix
      (trace example_world @
        [OpenClient, Search (COLLECTION example_env) ''2024-06-01/2024-06-03'' ''33UUP'' 5])
      (trace (snd (query_planetary_computer example_env ''33UUP'' ''2024-06-01/2024-06-03'' 5
        False example_world)))"
    by blast
  then have b: "prefix [OpenClient, Search ''sentinel-2-l2a'' ''2024-06-01/2024-06-03'' ''33UUP'' 5]
     (trace (snd (query_planetary_computer example_env ''33UUP'' ''2024-06-01/2024-06-03'' 5
        False example_world)))"
    by (simp only: k e append_Nil)
  have p: "parse_date ''2024-12-31'' = Some (2024, 12, 31)"
    by (simp add: digit_val_def)
  have v: "(1::nat) \<le> 2024 \<and> (1::nat) \<le> 12 \<and> (12::nat) \<le> 12 \<and> (1::nat) \<le> 31 \<and>
      31 \<le> days_in_month 2024 12 \<and> ((2024, 12, 31) :: nat \<times> nat \<times> nat) \<noteq> (9999, 12, 31)"
    by (simp add: days_in_month_def)
  have n: "isoformat nxt = ''2025-01-01T00:00:00''"
    if "add_one_day \<lparr>dt_year = 2024, dt_month = 12, dt_day = 31, dt_clock = ''00:00:00''\<rparr>
          = Inr nxt" for nxt
    using that
    by (auto simp: add_one_day_def days_in_month_def isoformat_def pad4_def pad2_def digit_def)
  from date_normalisation
    [of "''2024-12-31''" example_env 2024 12 31 "''x''" example_world "''33UUP''" 5 False] p v
  obtain nxt where
    "add_one_day \<lparr>dt_year = 2024, dt_month = 12, dt_day = 31, dt_clock = ''00:00:00''\<rparr>
       = Inr nxt"
    "datetime_query example_env ''2024-12-31'' = Inr (''2024-12-31'' @ ''T00:00:00/'' @ isoformat nxt)"
    by blast
  with n have "datetime_query example_env ''2024-12-31''
      = Inr ''2024-12-31T00:00:00/2025-01-01T00:00:00''"
    by simp
  with a b show ?thesis by blast
qed

section \<open>Claims about the asset download\<close>

lemma map_of_set_href:
  "map_of (set_href k h al) k' =
     (if k' = k then map_option (\<lambda>a. a\<lparr>href := h\<rparr>) (map_of al k) else map_of al k')"
  by (induction al) (auto simp: set_href_def)

lemma keys_set_href: "map fst (set_href k h al) = map fst al"
  by (induction al) (auto simp: set_href_def)

lemma gets_append: "gets (xs @ ys) = gets xs @ gets ys"
  by (induction xs rule: gets.induct) simp_all

lemma process_asset_skip:
  "\<not> is_geotiff a \<Longrightarrow> process_asset env iid (k, a) s = s"
  by (auto simp: process_asset_def is_geotiff_def split: option.splits)

lemma process_asset_geotiff:
  assumes "media_type a = Some mt" and "is_geotiff a"
  shows "process_asset env iid (k, a) (w, al) =
     (case download_try env iid k a mt (w, al) of
        (Inl e, w') \<Rightarrow> (emit (LogAssetFailed k iid e) w', al)
      | (Inr al', w') \<Rightarrow> (w', al'))"
  using assms
  by (auto simp: process_asset_def is_geotiff_def split: prod.splits sum.splits)

text \<open>What the \<^verbatim>\<open>try\<close> for one asset comes to, by the answers of the two collaborators.\<close>

lemma download_try_cases:
  "download_try env iid k a mt (w, al) =
     (case http_get env (trace w) (href a) of
        Inl msg \<Rightarrow> (Inl (Upstream msg), emit (Get (href a)) w)
      | Inr content \<Rightarrow>
          (case put_object env (trace w @ [Get (href a)]) (CIRRUS_DATA_BUCKET env)
                  (s3_key_of iid k) content mt of
             Some msg \<Rightarrow>
               (Inl (Upstream msg),
                emit (PutObject (CIRRUS_DATA_BUCKET env) (s3_key_of iid k) content mt)
                  (emit (Get (href a)) w))
           | None \<Rightarrow>
               (case map_of al k of
                  None \<Rightarrow>
                    (Inl (KeyError k),
                     emit (PutObject (CIRRUS_DATA_BUCKET env) (s3_key_of iid k) content mt)
                       (emit (Get (href a)) w))
                | Some orig \<Rightarrow>
                    (Inr (set_href k (s3_href env (s3_key_of iid k)) al),
                     emit (PutObject (CIRRUS_DATA_BUCKET env) (s3_key_of iid k) content mt)
                       (emit (Get (href a)) w)))))"
  by (simp add: download_try_def Let_def split: sum.splits option.splits)

lemma download_try_gets:
  "download_try env iid k a mt (w, al) = (res, w') \<Longrightarrow>
   gets (trace w') = gets (trace w) @ [href a]"
  by (auto simp: download_try_cases gets_append split: sum.splits option.splits)

lemma download_try_assets:
  "download_try env iid k a mt (w, al) = (Inr al', w') \<Longrightarrow>
   al' = set_href k (s3_href env (s3_key_of iid k)) al"
  by (auto simp: download_try_cases split: sum.splits option.splits)

lemma process_asset_other_key:
  assumes "process_asset env iid (k, a) (w, al) = (w', al')" and "k' \<noteq> k"
  shows "map_of al' k' = map_of al k'"
proof (cases "is_geotiff a")
  case False
  with assms show ?thesis by (simp add: process_asset_skip)
next
  case True
  then obtain mt where mt: "media_type a = Some mt"
    by (auto simp: is_geotiff_def split: option.splits)
  obtain res w1 where d: "download_try env iid k a mt (w, al) = (res, w1)"
    by (cases "download_try env iid k a mt (w, al)") auto
  show ?thesis
  proof (cases res)
    case (Inl e)
    with d assms(1) process_asset_geotiff [OF mt True, of env iid k w al] show ?thesis
      by simp
  next
    case (Inr al1)
    with d assms(1) process_asset_geotiff [OF mt True, of env iid k w al]
    have "al' = al1" by simp
    with d Inr download_try_assets [of env iid k a mt w al al1 w1] assms(2)
    show ?thesis by (simp add: map_of_set_href)
  qed
qed

lemma process_asset_keys:
  assumes "process_asset env iid (k, a) (w, al) = (w', al')"
  shows "map fst al' = map fst al"
proof (cases "is_geotiff a")
  case False
  with assms show ?thesis by (simp add: process_asset_skip)
next
  case True
  then obtain mt where mt: "media_type a = Some mt"
    by (auto simp: is_geotiff_def split: option.splits)
  obtain res w1 where d: "download_try env iid k a mt (w, al) = (res, w1)"
    by (cases "download_try env iid k a mt (w, al)") auto
  show ?thesis
  proof (cases res)
    case (Inl e)
    with d assms process_asset_geotiff [OF mt True, of env iid k w al] show ?thesis
      by simp
  next
    case (Inr al1)
    with d assms process_asset_geotiff [OF mt True, of env iid k w al]
    have "al' = al1" by simp
    with d Inr download_try_assets [of env iid k a mt w al al1 w1]
    show ?thesis by (simp add: keys_set_href)
  qed
qed

lemma process_asset_gets:
  assumes "process_asset env iid (k, a) (w, al) = (w', al')"
  shows "gets (trace w') = gets (trace w) @ (if is_geotiff a then [href a] else [])"
proof (cases "is_geotiff a")
  case False
  with assms show ?thesis by (simp add: process_asset_skip)
next
  case True
  then obtain mt where mt: "media_type a = Some mt"
    by (auto simp: is_geotiff_def split: option.splits)
  obtain res w1 where d: "download_try env iid k a mt (w, al) = (res, w1)"
    by (cases "download_try env iid k a mt (w, al)") auto
  from d assms process_asset_geotiff [OF mt True, of env iid k w al]
  have "gets (trace w') = gets (trace w1)"
    by (cases res) (auto simp: gets_append)
  with download_try_gets [OF d] True show ?thesis by simp
qed

lemma asset_loop_append:
  "asset_loop env iid (xs @ ys) s = asset_loop env iid ys (asset_loop env iid xs s)"
  by (induction xs arbitrary: s) simp_all

lemma asset_loop_frame:
  assumes "\<forall>(k', a') \<in> set signed. is_geotiff a' \<longrightarrow> k' \<noteq> k"
    and "asset_loop env iid signed (w, al) = (w', al')"
  shows "map_of al' k = map_of al k"
  using assms
proof (induction signed arbitrary: w al)
  case Nil
  then show ?case by simp
next
  case (Cons ka signed)
  obtain k1 a1 where ka: "ka = (k1, a1)" by (cases ka)
  obtain w1 al1 where s: "process_asset env iid (k1, a1) (w, al) = (w1, al1)"
    by (cases "process_asset env iid (k1, a1) (w, al)") auto
  from Cons.prems(2) ka s have r: "asset_loop env iid signed (w1, al1) = (w', al')"
    by simp
  from Cons.prems(1) have t: "\<forall>(k', a') \<in> set signed. is_geotiff a' \<longrightarrow> k' \<noteq> k"
    by simp
  have "map_of al1 k = map_of al k"
  proof (cases "is_geotiff a1")
    case True
    with Cons.prems(1) ka have "k \<noteq> k1" by auto
    from process_asset_other_key [OF s this] show ?thesis .
  next
    case False
    with s show ?thesis by (simp add: process_asset_skip)
  qed
  with Cons.IH [OF t r] show ?case by simp
qed

lemma asset_loop_keys:
  "asset_loop env iid signed (w, al) = (w', al') \<Longrightarrow> map fst al' = map fst al"
proof (induction signed arbitrary: w al)
  case Nil
  then show ?case by simp
next
  case (Cons ka signed)
  obtain k1 a1 where ka: "ka = (k1, a1)" by (cases ka)
  obtain w1 al1 where s: "process_asset env iid (k1, a1) (w, al) = (w1, al1)"
    by (cases "process_asset env iid (k1, a1) (w, al)") auto
  from Cons.prems ka s have "asset_loop env iid signed (w1, al1) = (w', al')"
    by simp
  from Cons.IH [OF this] process_asset_keys [OF s] show ?case by simp
qed

lemma asset_loop_gets:
  "asset_loop env iid signed (w, al) = (w', al') \<Longrightarrow>
   gets (trace w') =
     gets (trace w) @ map (\<lambda>ka. href (snd ka)) (filter (\<lambda>ka. is_geotiff (snd ka)) signed)"
proof (induction signed arbitrary: w al)
  case Nil
  then show ?case by simp
next
  case (Cons ka signed)
  obtain k1 a1 where ka: "ka = (k1, a1)" by (cases ka)
  obtain w1 al1 where s: "process_asset env iid (k1, a1) (w, al) = (w1, al1)"
    by (cases "process_asset env iid (k1, a1) (w, al)") auto
  from Cons.prems ka s have "asset_loop env iid signed (w1, al1) = (w', al')"
    by simp
  from Cons.IH [OF this] process_asset_gets [OF s] ka show ?case by simp
qed

lemma download_item_signed:
  assumes "sign env (trace w) it = Inr signed"
    and "asset_loop env (item_id it) signed (emit (Sign (item_id it)) w, assets it) = (w', al')"
  shows "download_and_update_item env it w = (Inr (it\<lparr>assets := al'\<rparr>), w')"
    and "process_item env True it w = (Inr (to_dict (store w') (it\<lparr>assets := al'\<rparr>)), w')"
  using assms by (simp_all add: download_and_update_item_def process_item_def Let_def)

text \<open>
  Claim C5. In asset-download mode, when signing returns the item's assets with their media
  types as they are, an asset whose media type is absent or does not contain \<^verbatim>\<open>"geotiff"\<close>
  is the same after the transform as before it, href included. The loop adds and drops
  no asset, and the HTTP requests it makes are exactly one per signed GeoTIFF asset, in
  order: nothing is fetched for any other asset. When signing itself raises, nothing is
  fetched and nothing is changed.
\<close>

theorem non_geotiff_assets_untouched:
  "(sign env (trace w) it = Inr signed \<and>
    (\<forall>(k, a') \<in> set signed. \<forall>a. map_of (assets it) k = Some a \<longrightarrow> media_type a' = media_type a)
    \<longrightarrow>
      (\<exists>it' w'.
         download_and_update_item env it w = (Inr it', w') \<and>
         process_item env True it w = (Inr (to_dict (store w') it'), w') \<and>
         (\<forall>k a. map_of (assets it) k = Some a \<and> \<not> is_geotiff a \<longrightarrow>
                map_of (assets it') k = Some a) \<and>
         map fst (assets it') = map fst (assets it) \<and>
         gets (trace w') =
           gets (trace w) @
             map (\<lambda>ka. href (snd ka)) (filter (\<lambda>ka. is_geotiff (snd ka)) signed))) \<and>
   (sign env (trace w) it = Inl msg \<longrightarrow>
      download_and_update_item env it w = (Inl (Upstream msg), emit (Sign (item_id it)) w))"
proof (intro conjI impI)
  assume h: "sign env (trace w) it = Inr signed \<and>
    (\<forall>(k, a') \<in> set signed. \<forall>a. map_of (assets it) k = Some a \<longrightarrow> media_type a' = media_type a)"
  obtain w' al' where
    l: "asset_loop env (item_id it) signed (emit (Sign (item_id it)) w, assets it) = (w', al')"
    by (cases "asset_loop env (item_id it) signed (emit (Sign (item_id it)) w, assets it)") auto
  from h have s: "sign env (trace w) it = Inr signed" by simp
  have f: "map_of al' k = Some a" if "map_of (assets it) k = Some a" "\<not> is_geotiff a" for k a
  proof -
    from h that have "\<forall>(k', a') \<in> set signed. is_geotiff a' \<longrightarrow> k' \<noteq> k"
      by (auto simp: is_geotiff_def)
    from asset_loop_frame [OF this l] that(1) show ?thesis by simp
  qed
  from asset_loop_gets [OF l]
  have g: "gets (trace w') =
      gets (trace w) @ map (\<lambda>ka. href (snd ka)) (filter (\<lambda>ka. is_geotiff (snd ka)) signed)"
    by (simp add: gets_append)
  from download_item_signed [OF s l] f asset_loop_keys [OF l] g
  show "\<exists>it' w'.
         download_and_update_item env it w = (Inr it', w') \<and>
         process_item env True it w = (Inr (to_dict (store w') it'), w') \<and>
         (\<forall>k a. map_of (assets it) k = Some a \<and> \<not> is_geotiff a \<longrightarrow>
                map_of (assets it') k = Some a) \<and>
         map fst (assets it') = map fst (assets it) \<and>
         gets (trace w') =
           gets (trace w) @
             map (\<lambda>ka. href (snd ka)) (filter (\<lambda>ka. is_geotiff (snd ka)) signed)"
    by (intro exI [of _ "it\<lparr>assets := al'\<rparr>"] exI [of _ w']) simp
next
  assume "sign env (trace w) it = Inl msg"
  then show "download_and_update_item env it w =
      (Inl (Upstream msg), emit (Sign (item_id it)) w)"
    by (simp add: download_and_update_item_def Let_def)
qed

lemma example_geotiff:
  "is_geotiff \<lparr>href = ''https://pc/B04.tif'', media_type = Some ''image/tiff; application=geotiff''\<rparr>"
  "\<not> is_geotiff \<lparr>href = ''https://pc/thumb.png'', media_type = Some ''image/png''\<rparr>"
  by (simp_all add: is_geotiff_def)

theorem non_geotiff_assets_untouched_witness:
  "\<exists>it' w'.
     download_and_update_item example_env example_item example_world = (Inr it', w') \<and>
     map_of (assets it') ''thumb'' =
       Some \<lparr>href = ''https://pc/thumb.png'', media_type = Some ''image/png''\<rparr> \<and>
     gets (trace w') = [''https://pc/B04.tif'']"
proof -
  have s: "sign example_env (trace example_world) example_item = Inr example_assets"
    by (simp add: example_env_def example_item_def)
  have m: "\<forall>(k, a') \<in> set example_assets.
      \<forall>a. map_of (assets example_item) k = Some a \<longrightarrow> media_type a' = media_type a"
    by (simp add: example_assets_def example_item_def)
  have t: "map_of (assets example_item) ''thumb'' =
      Some \<lparr>href = ''https://pc/thumb.png'', media_type = Some ''image/png''\<rparr>"
    by (simp add: example_assets_def example_item_def)
  have g: "map (\<lambda>ka. href (snd ka)) (filter (\<lambda>ka. is_geotiff (snd ka)) example_assets)
      = [''https://pc/B04.tif'']"
    by (simp add: example_assets_def example_geotiff)
  have e: "gets (trace example_world) = []"
    by (simp add: example_world_def)
  from non_geotiff_assets_untouched
    [of example_env example_world example_item example_assets "''x''"] s m
  obtain it' w' where
    "download_and_update_item example_env example_item example_world = (Inr it', w')"
    "\<forall>k a. map_of (assets example_item) k = Some a \<and> \<not> is_geotiff a \<longrightarrow>
        map_of (assets it') k = Some a"
    "gets (trace w') = gets (trace example_world) @
       map (\<lambda>ka. href (snd ka)) (filter (\<lambda>ka. is_geotiff (snd ka)) example_assets)"
    by blast
  with t example_geotiff(2) g e show ?thesis
    by (intro exI [of _ it'] exI [of _ w']) simp
qed


text \<open>The asset under key \<open>k\<close> after its own turn of the loop.\<close>

lemma process_asset_at:
  assumes "media_type a = Some mt" and "is_geotiff a"
    and "map_of al k = Some orig"
    and "process_asset env iid (k, a) (w, al) = (w', al')"
  shows "map_of al' k =
     (case http_get env (trace w) (href a) of
        Inl msg \<Rightarrow> Some orig
      | Inr content \<Rightarrow>
          (case put_object env (trace w @ [Get (href a)]) (CIRRUS_DATA_BUCKET env)
                  (s3_key_of iid k) content mt of
             Some msg \<Rightarrow> Some orig
           | None \<Rightarrow> Some (orig\<lparr>href := s3_href env (s3_key_of iid k)\<rparr>)))"
proof -
  from assms(4) process_asset_geotiff [OF assms(1,2), of env iid k w al]
  have e: "(case download_try env iid k a mt (w, al) of
        (Inl e, w1) \<Rightarrow> (emit (LogAssetFailed k iid e) w1, al)
      | (Inr al1, w1) \<Rightarrow> (w1, al1)) = (w', al')"
    by simp
  show ?thesis
  proof (cases "http_get env (trace w) (href a)")
    case (Inl msg)
    with e assms(3) show ?thesis
      by (simp add: download_try_cases)
  next
    case (Inr content)
    show ?thesis
    proof (cases "put_object env (trace w @ [Get (href a)]) (CIRRUS_DATA_BUCKET env)
                    (s3_key_of iid k) content mt")
      case None
      with Inr e assms(3) show ?thesis
        by (auto simp: download_try_cases map_of_set_href)
    next
      case (Some msg)
      with Inr e assms(3) show ?thesis
        by (simp add: download_try_cases)
    qed
  qed
qed

lemma asset_loop_at:
  assumes d: "distinct (map fst (pre @ (k, a) # post))"
    and mt: "media_type a = Some mt" and g: "is_geotiff a"
    and o: "map_of al k = Some orig"
    and l: "asset_loop env iid (pre @ (k, a) # post) (w, al) = (w', al')"
  shows "map_of al' k =
     (case http_get env (trace (fst (asset_loop env iid pre (w, al)))) (href a) of
        Inl msg \<Rightarrow> Some orig
      | Inr content \<Rightarrow>
          (case put_object env (trace (fst (asset_loop env iid pre (w, al))) @ [Get (href a)])
                  (CIRRUS_DATA_BUCKET env) (s3_key_of iid k) content mt of
             Some msg \<Rightarrow> Some orig
           | None \<Rightarrow> Some (orig\<lparr>href := s3_href env (s3_key_of iid k)\<rparr>)))"
proof -
  obtain wk alk where p: "asset_loop env iid pre (w, al) = (wk, alk)"
    by (cases "asset_loop env iid pre (w, al)") auto
  obtain w1 al1 where s: "process_asset env iid (k, a) (wk, alk) = (w1, al1)"
    by (cases "process_asset env iid (k, a) (wk, alk)") auto
  from l p s have r: "asset_loop env iid post (w1, al1) = (w', al')"
    by (simp add: asset_loop_append)
  from d have "k \<notin> fst ` set pre" and n: "k \<notin> fst ` set post"
    by simp_all
  then have "\<forall>(k', a') \<in> set pre. is_geotiff a' \<longrightarrow> k' \<noteq> k"
    by force
  from asset_loop_frame [OF this p] o have ok: "map_of alk k = Some orig"
    by simp
  from n have "\<forall>(k', a') \<in> set post. is_geotiff a' \<longrightarrow> k' \<noteq> k"
    by force
  from asset_loop_frame [OF this r] have "map_of al' k = map_of al1 k" .
  moreover from p have "fst (asset_loop env iid pre (w, al)) = wk"
    by simp
  ultimately show ?thesis
    using process_asset_at [OF mt g ok s] by (simp only:)
qed

text \<open>When signing never raises, the loop over the items raises nothing either.\<close>

lemma process_items_signed:
  assumes "\<forall>tr i. \<exists>s. sign env tr i = Inr s"
  shows "\<exists>fs w'. process_items env True its w = (Inr fs, w')"
proof (induction its arbitrary: w)
  case Nil
  show ?case by simp
next
  case (Cons it its)
  from assms obtain signed where s: "sign env (trace w) it = Inr signed"
    by blast
  obtain w1 al1 where
    l: "asset_loop env (item_id it) signed (emit (Sign (item_id it)) w, assets it) = (w1, al1)"
    using asset_loop_world by blast
  note p = download_item_signed(2) [OF s l]
  from Cons.IH [of w1] obtain fs w' where "process_items env True its w1 = (Inr fs, w')"
    by blast
  with p show ?case by simp
qed

text \<open>
  Claim C6. In asset-download mode, take an item whose signing succeeds, the signed assets
  having distinct keys. The transform raises nothing and the item's feature is produced.
  Every signed GeoTIFF asset is fetched, in order, whatever happened to the ones before
  it. And for each signed GeoTIFF asset that the original item has: when its fetch fails,
  or its store fails, the original item's asset is exactly as it was, href included; when
  both succeed, it is the original asset with the href pointing at the stored object.
  The collaborators are asked with the trace as the loop has left it after the assets
  before. Over a list of items, when signing never raises, every item yields a feature,
  in order, whichever fetches and stores failed. And in the handler: for a valid request
  in asset-download mode whose catalog query answers, signing never raising, the item
  loop yields one feature per catalog item, and these features are in \<^verbatim>\<open>event["features"]\<close>
  as the handler leaves it, after the ones that were there, whatever the handler's own
  outcome.
\<close>

theorem asset_failure_is_contained:
  "(sign env (trace w) it = Inr signed \<and> distinct (map fst signed) \<longrightarrow>
      (\<exists>it' w'.
         download_and_update_item env it w = (Inr it', w') \<and>
         process_item env True it w = (Inr (to_dict (store w') it'), w') \<and>
         gets (trace w') =
           gets (trace w) @
             map (\<lambda>ka. href (snd ka)) (filter (\<lambda>ka. is_geotiff (snd ka)) signed) \<and>
         (\<forall>pre k a post mt orig.
            signed = pre @ (k, a) # post \<and> media_type a = Some mt \<and> is_geotiff a \<and>
            map_of (assets it) k = Some orig \<longrightarrow>
            map_of (assets it') k =
              (case http_get env
                      (trace (fst (asset_loop env (item_id it) pre
                                     (emit (Sign (item_id it)) w, assets it))))
                      (href a) of
                 Inl msg \<Rightarrow> Some orig
               | Inr content \<Rightarrow>
                   (case put_object env
                           (trace (fst (asset_loop env (item_id it) pre
                                          (emit (Sign (item_id it)) w, assets it)))
                              @ [Get (href a)])
                           (CIRRUS_DATA_BUCKET env) (s3_key_of (item_id it) k) content mt of
                      Some msg \<Rightarrow> Some orig
                    | None \<Rightarrow>
                        Some (orig\<lparr>href := s3_href env (s3_key_of (item_id it) k)\<rparr>)))))) \<and>
   ((\<forall>tr i. \<exists>s. sign env tr i = Inr s) \<longrightarrow>
      (\<exists>fs w'. process_items env True its w0 = (Inr fs, w') \<and>
                map f_id fs = map item_id its)) \<and>
   ((\<forall>tr i. \<exists>s. sign env tr i = Inr s) \<and>
    json_dumps env event = Inr logged \<and> process event = Some (pc # others) \<and>
    \<not> falsy (cfg_tile (get_task_config pc)) \<and> \<not> falsy (cfg_date (get_task_config pc)) \<and>
    download_flag (get_task_config pc) \<and>
    query_planetary_computer env (py_str (cfg_tile (get_task_config pc)))
       (py_str (cfg_date (get_task_config pc)))
       (item_limit (get_task_config pc)) True wh
      = (Inr stac_items, wq) \<longrightarrow>
      (\<exists>fs w2 res event' w'.
         process_items env True stac_items wq = (Inr fs, w2) \<and>
         map f_id fs = map item_id stac_items \<and>
         lambda_handler env event wh = (res, event', w') \<and>
         features event' = Some (features_of event @ fs)))"
proof (intro conjI impI)
  assume h: "sign env (trace w) it = Inr signed \<and> distinct (map fst signed)"
  then have s: "sign env (trace w) it = Inr signed" and d: "distinct (map fst signed)"
    by simp_all
  obtain w' al' where
    l: "asset_loop env (item_id it) signed (emit (Sign (item_id it)) w, assets it) = (w', al')"
    using asset_loop_world by blast
  from asset_loop_gets [OF l]
  have g: "gets (trace w') =
      gets (trace w) @ map (\<lambda>ka. href (snd ka)) (filter (\<lambda>ka. is_geotiff (snd ka)) signed)"
    by (simp add: gets_append)
  have a: "map_of al' k =
      (case http_get env
              (trace (fst (asset_loop env (item_id it) pre
                             (emit (Sign (item_id it)) w, assets it))))
              (href a) of
         Inl msg \<Rightarrow> Some orig
       | Inr content \<Rightarrow>
           (case put_object env
                   (trace (fst (asset_loop env (item_id it) pre
                                  (emit (Sign (item_id it)) w, assets it)))
                      @ [Get (href a)])
                   (CIRRUS_DATA_BUCKET env) (s3_key_of (item_id it) k) content mt of
              Some msg \<Rightarrow> Some orig
            | None \<Rightarrow> Some (orig\<lparr>href := s3_href env (s3_key_of (item_id it) k)\<rparr>)))"
    if "signed = pre @ (k, a) # post" "media_type a = Some mt" "is_geotiff a"
       "map_of (assets it) k = Some orig" for pre k a post mt orig
  proof -
    from d that(1) have d': "distinct (map fst (pre @ (k, a) # post))"
      by simp
    from l that(1) have
      l': "asset_loop env (item_id it) (pre @ (k, a) # post)
         (emit (Sign (item_id it)) w, assets it) = (w', al')"
      by simp
    from asset_loop_at [OF d' that(2,3,4) l'] show ?thesis .
  qed
  from download_item_signed [OF s l] g a
  show "\<exists>it' w'.
         download_and_update_item env it w = (Inr it', w') \<and>
         process_item env True it w = (Inr (to_dict (store w') it'), w') \<and>
         gets (trace w') =
           gets (trace w) @
             map (\<lambda>ka. href (snd ka)) (filter (\<lambda>ka. is_geotiff (snd ka)) signed) \<and>
         (\<forall>pre k a post mt orig.
            signed = pre @ (k, a) # post \<and> media_type a = Some mt \<and> is_geotiff a \<and>
            map_of (assets it) k = Some orig \<longrightarrow>
            map_of (assets it') k =
              (case http_get env
                      (trace (fst (asset_loop env (item_id it) pre
                                     (emit (Sign (item_id it)) w, assets it))))
                      (href a) of
                 Inl msg \<Rightarrow> Some orig
               | Inr content \<Rightarrow>
                   (case put_object env
                           (trace (fst (asset_loop env (item_id it) pre
                                          (emit (Sign (item_id it)) w, assets it)))
                              @ [Get (href a)])
                           (CIRRUS_DATA_BUCKET env) (s3_key_of (item_id it) k) content mt of
                      Some msg \<Rightarrow> Some orig
                    | None \<Rightarrow>
                        Some (orig\<lparr>href := s3_href env (s3_key_of (item_id it) k)\<rparr>))))"
    by (intro exI [of _ "it\<lparr>assets := al'\<rparr>"] exI [of _ w']) simp
next
  assume "\<forall>tr i. \<exists>s. sign env tr i = Inr s"
  from process_items_signed [OF this, of its w0] obtain fs w' where
    p: "process_items env True its w0 = (Inr fs, w')"
    by blast
  from process_items_ids [OF p] p
  show "\<exists>fs w'. process_items env True its w0 = (Inr fs, w') \<and> map f_id fs = map item_id its"
    by blast
next
  assume h: "(\<forall>tr i. \<exists>s. sign env tr i = Inr s) \<and>
    json_dumps env event = Inr logged \<and> process event = Some (pc # others) \<and>
    \<not> falsy (cfg_tile (get_task_config pc)) \<and> \<not> falsy (cfg_date (get_task_config pc)) \<and>
    download_flag (get_task_config pc) \<and>
    query_planetary_computer env (py_str (cfg_tile (get_task_config pc)))
       (py_str (cfg_date (get_task_config pc)))
       (item_limit (get_task_config pc)) True wh
      = (Inr stac_items, wq)"
  then have s: "\<forall>tr i. \<exists>s. sign env tr i = Inr s" and d: "download_flag (get_task_config pc)"
    by blast+
  from process_items_signed [OF s, of stac_items wq] obtain fs w2 where
    p: "process_items env True stac_items wq = (Inr fs, w2)"
    by blast
  from h d have a: "json_dumps env event = Inr logged" "process event = Some (pc # others)"
    "\<not> falsy (cfg_tile (get_task_config pc))" "\<not> falsy (cfg_date (get_task_config pc))"
    "query_planetary_computer env (py_str (cfg_tile (get_task_config pc)))
       (py_str (cfg_date (get_task_config pc)))
       (item_limit (get_task_config pc)) (download_flag (get_task_config pc)) wh
      = (Inr stac_items, wq)"
    by simp_all
  from p d have "process_items env (download_flag (get_task_config pc)) stac_items wq = (Inr fs, w2)"
    by simp
  from lambda_handler_items_features [OF a this] obtain res event' w' where
    "lambda_handler env event wh = (res, event', w')"
    "features event' = Some (features_of event @ fs)"
    by blast
  with p process_items_ids [OF p]
  show "\<exists>fs w2 res event' w'.
         process_items env True stac_items wq = (Inr fs, w2) \<and>
         map f_id fs = map item_id stac_items \<and>
         lambda_handler env event wh = (res, event', w') \<and>
         features event' = Some (features_of event @ fs)"
    by blast
qed

lemma two_band_setup:
  "sign flaky_env tr two_band_item = Inr two_band_assets \<and> distinct (map fst two_band_assets)"
  "\<forall>tr i. \<exists>s. sign flaky_env tr i = Inr s"
  "item_id two_band_item = ''S2A''"
  "map (\<lambda>ka. href (snd ka)) (filter (\<lambda>ka. is_geotiff (snd ka)) two_band_assets) =
     [''https://pc/B04.tif'', ''https://pc/B08.tif'']"
  by (simp_all add: flaky_env_def example_env_def two_band_item_def two_band_assets_def
        example_item_def is_geotiff_def)

lemma download_event_config:
  "process download_event =
     Some [\<lparr>tasks = Some [(''planetary-computer-to-s3'',
              example_config\<lparr>cfg_download_assets := Some True\<rparr>)]\<rparr>]"
  "get_task_config \<lparr>tasks = Some [(''planetary-computer-to-s3'',
              example_config\<lparr>cfg_download_assets := Some True\<rparr>)]\<rparr>
     = example_config\<lparr>cfg_download_assets := Some True\<rparr>"
  "cfg_tile (example_config\<lparr>cfg_download_assets := Some True\<rparr>) = Some ''33UUP''"
  "cfg_date (example_config\<lparr>cfg_download_assets := Some True\<rparr>) = Some ''2024-06-01''"
  "download_flag (example_config\<lparr>cfg_download_assets := Some True\<rparr>)"
  "item_limit (example_config\<lparr>cfg_download_assets := Some True\<rparr>) = 5"
  "features_of download_event = []"
  by (simp_all add: download_event_def example_event_def get_task_config_def TASK_NAME_def
        example_config_def download_flag_def item_limit_def features_of_def)

theorem asset_failure_is_contained_witness:
  "(\<exists>it' w'.
      download_and_update_item flaky_env two_band_item
        (example_world\<lparr>trace := trace example_world @
           [OpenClient,
            Search ''sentinel-2-l2a'' ''2024-06-01T00:00:00/2024-06-02T00:00:00'' ''33UUP'' 5]\<rparr>)
        = (Inr it', w') \<and>
      map_of (assets it') ''B04'' =
        Some \<lparr>href = ''https://pc/B04.tif'',
              media_type = Some ''image/tiff; application=geotiff''\<rparr> \<and>
      map_of (assets it') ''B08'' =
        Some \<lparr>href = ''s3://data/sentinel-2-l2a/S2A/B08.tif'',
              media_type = Some ''image/tiff; application=geotiff''\<rparr> \<and>
      gets (trace w') = [''https://pc/B04.tif'', ''https://pc/B08.tif'']) \<and>
   (\<exists>fs w'. process_items flaky_env True [two_band_item] example_world = (Inr fs, w') \<and>
             map f_id fs = [''S2A'']) \<and>
   (\<exists>res event' w' f.
      lambda_handler flaky_env download_event example_world = (res, event', w') \<and>
      features event' = Some [f] \<and> f_id f = ''S2A'' \<and>
      map_of (f_assets f) ''B04'' =
        Some \<lparr>href = ''https://pc/B04.tif'',
              media_type = Some ''image/tiff; application=geotiff''\<rparr> \<and>
      map_of (f_assets f) ''B08'' =
        Some \<lparr>href = ''s3://data/sentinel-2-l2a/S2A/B08.tif'',
              media_type = Some ''image/tiff; application=geotiff''\<rparr>)"
proof -
  let ?mt = "''image/tiff; application=geotiff''"
  let ?b4 = "\<lparr>href = ''https://pc/B04.tif'', media_type = Some ?mt\<rparr>"
  let ?b8 = "\<lparr>href = ''https://pc/B08.tif'', media_type = Some ?mt\<rparr>"
  let ?pc = "\<lparr>tasks = Some [(''planetary-computer-to-s3'',
              example_config\<lparr>cfg_download_assets := Some True\<rparr>)]\<rparr>"
  let ?wq = "example_world\<lparr>trace := trace example_world @
        [OpenClient,
         Search ''sentinel-2-l2a'' ''2024-06-01T00:00:00/2024-06-02T00:00:00'' ''33UUP'' 5]\<rparr>"
  note c = asset_failure_is_contained
    [where env = flaky_env and w = ?wq and it = two_band_item and signed = two_band_assets
       and its = "[two_band_item]" and ?w0.0 = example_world
       and event = download_event and logged = "''{}''" and pc = ?pc and others = "[]"
       and wh = example_world and stac_items = "[two_band_item]" and wq = ?wq]
  from c [THEN conjunct1, THEN mp, OF two_band_setup(1)] obtain it' w' where
    r: "download_and_update_item flaky_env two_band_item ?wq = (Inr it', w')" and
    pi: "process_item flaky_env True two_band_item ?wq = (Inr (to_dict (store w') it'), w')" and
    g: "gets (trace w') =
          gets (trace ?wq) @
            map (\<lambda>ka. href (snd ka)) (filter (\<lambda>ka. is_geotiff (snd ka)) two_band_assets)" and
    a: "\<forall>pre k a post mt orig.
          two_band_assets = pre @ (k, a) # post \<and> media_type a = Some mt \<and> is_geotiff a \<and>
          map_of (assets two_band_item) k = Some orig \<longrightarrow>
          map_of (assets it') k =
            (case http_get flaky_env
                    (trace (fst (asset_loop flaky_env (item_id two_band_item) pre
                                   (emit (Sign (item_id two_band_item)) ?wq,
                                    assets two_band_item))))
                    (href a) of
               Inl msg \<Rightarrow> Some orig
             | Inr content \<Rightarrow>
                 (case put_object flaky_env
                         (trace (fst (asset_loop flaky_env (item_id two_band_item) pre
                                        (emit (Sign (item_id two_band_item)) ?wq,
                                         assets two_band_item)))
                            @ [Get (href a)])
                         (CIRRUS_DATA_BUCKET flaky_env)
                         (s3_key_of (item_id two_band_item) k) content mt of
                    Some msg \<Rightarrow> Some orig
                  | None \<Rightarrow>
                      Some (orig\<lparr>href :=
                        s3_href flaky_env (s3_key_of (item_id two_band_item) k)\<rparr>)))"
    by blast
  have p4: "two_band_assets = [] @ (''B04'', ?b4) # [(''B08'', ?b8)] \<and>
      media_type ?b4 = Some ?mt \<and> is_geotiff ?b4 \<and>
      map_of (assets two_band_item) ''B04'' = Some ?b4"
    by (simp add: two_band_assets_def two_band_item_def is_geotiff_def)
  have p8: "two_band_assets = [(''B04'', ?b4)] @ (''B08'', ?b8) # [] \<and>
      media_type ?b8 = Some ?mt \<and> is_geotiff ?b8 \<and>
      map_of (assets two_band_item) ''B08'' = Some ?b8"
    by (simp add: two_band_assets_def two_band_item_def is_geotiff_def)
  from a [rule_format, OF p4] have b4: "map_of (assets it') ''B04'' = Some ?b4"
    by (simp add: flaky_env_def)
  from a [rule_format, OF p8]
  have b8: "map_of (assets it') ''B08'' =
      Some \<lparr>href = ''s3://data/sentinel-2-l2a/S2A/B08.tif'', media_type = Some ?mt\<rparr>"
    by (simp add: flaky_env_def example_env_def s3_href_def s3_key_of_def two_band_setup(3))
  have "gets (trace ?wq) = []"
    by (simp add: example_world_def)
  with g have g': "gets (trace w') = [''https://pc/B04.tif'', ''https://pc/B08.tif'']"
    by (simp only: two_band_setup(4) append_Nil)
  from c [THEN conjunct2, THEN conjunct1, THEN mp, OF two_band_setup(2)]
  have i: "\<exists>fs w'. process_items flaky_env True [two_band_item] example_world = (Inr fs, w') \<and>
      map f_id fs = [''S2A'']"
    by (simp add: two_band_setup(3))
  have q: "query_planetary_computer flaky_env ''33UUP'' ''2024-06-01'' 5 True example_world =
      (Inr [two_band_item], ?wq)"
    by (rule example_date_query) (simp_all add: flaky_env_def example_env_def)
  have h: "(\<forall>tr i. \<exists>s. sign flaky_env tr i = Inr s) \<and>
    json_dumps flaky_env download_event = Inr ''{}'' \<and> process download_event = Some (?pc # []) \<and>
    \<not> falsy (cfg_tile (get_task_config ?pc)) \<and> \<not> falsy (cfg_date (get_task_config ?pc)) \<and>
    download_flag (get_task_config ?pc) \<and>
    query_planetary_computer flaky_env (py_str (cfg_tile (get_task_config ?pc)))
       (py_str (cfg_date (get_task_config ?pc)))
       (item_limit (get_task_config ?pc)) True example_world
      = (Inr [two_band_item], ?wq)"
    using two_band_setup(2) q
    by (simp add: download_event_config) (simp add: flaky_env_def example_env_def)
  from c [THEN conjunct2, THEN conjunct2, THEN mp, OF h] obtain fs w2 res event' w'' where
    p: "process_items flaky_env True [two_band_item] ?wq = (Inr fs, w2)" and
    m: "map f_id fs = map item_id [two_band_item]" and
    l: "lambda_handler flaky_env download_event example_world = (res, event', w'')" and
    f: "features event' = Some (features_of download_event @ fs)"
    by blast
  from p pi have fs: "fs = [to_dict (store w') it']"
    by auto
  with f have f': "features event' = Some [to_dict (store w') it']"
    by (simp add: download_event_config)
  from m fs have n: "f_id (to_dict (store w') it') = ''S2A''"
    by (simp add: two_band_setup(3))
  from b4 b8 have
    "map_of (f_assets (to_dict (store w') it')) ''B04'' = Some ?b4"
    "map_of (f_assets (to_dict (store w') it')) ''B08'' =
       Some \<lparr>href = ''s3://data/sentinel-2-l2a/S2A/B08.tif'', media_type = Some ?mt\<rparr>"
    by (simp_all add: to_dict_def)
  with l f' n have
    "\<exists>res event' w' f.
      lambda_handler flaky_env download_event example_world = (res, event', w') \<and>
      features event' = Some [f] \<and> f_id f = ''S2A'' \<and>
      map_of (f_assets f) ''B04'' = Some ?b4 \<and>
      map_of (f_assets f) ''B08'' =
        Some \<lparr>href = ''s3://data/sentinel-2-l2a/S2A/B08.tif'', media_type = Some ?mt\<rparr>"
    by blast
  moreover from r b4 b8 g' have
    "\<exists>it' w'.
      download_and_update_item flaky_env two_band_item ?wq = (Inr it', w') \<and>
      map_of (assets it') ''B04'' = Some ?b4 \<and>
      map_of (assets it') ''B08'' =
        Some \<lparr>href = ''s3://data/sentinel-2-l2a/S2A/B08.tif'', media_type = Some ?mt\<rparr> \<and>
      gets (trace w') = [''https://pc/B04.tif'', ''https://pc/B08.tif'']"
    by blast
  ultimately show ?thesis
    using i by (intro conjI)
qed
end
